theory Spec2Isabelle
  imports Complex_Main "HOL-Library.Word" "HOL-Library.AList" "HOL-Library.Log_Nat"
begin

text \<open>
  A model of the page \<^verbatim>\<open>src/app/page.tsx\<close>, which turns the addresses of a CSV file into
  coordinates: the state of the page, its handlers as functions from state to state, the
  row loop as a recursive function, and the export. The browser (reading and decoding a
  file), the CSV parser and the geocoding gateway are parameters; what a call of the
  gateway may do includes throwing and never answering.
\<close>

section \<open>Strings\<close>

text \<open>
  A JavaScript string is a sequence of UTF-16 code units. The messages and status values
  of \<^verbatim>\<open>src/app/page.tsx\<close> are Japanese text, so they are written here by their code units;
  ASCII text goes through \<open>ascii\<close>.
\<close>

type_synonym js_string = "16 word list"

definition ascii :: "string \<Rightarrow> js_string" where
  "ascii s = map (\<lambda>c. of_nat (of_char c)) s"

text \<open>
  \<^verbatim>\<open>String.prototype.trim\<close> removes the code units of ECMAScript's WhiteSpace and
  LineTerminator productions from both ends: TAB, LF, VT, FF, CR, SP, NBSP, U+1680,
  U+2000 to U+200A, U+2028, U+2029, U+202F, U+205F, U+3000 (the ideographic space) and
  U+FEFF.
\<close>

definition isWhiteSpace :: "16 word \<Rightarrow> bool" where
  "isWhiteSpace c \<longleftrightarrow>
     c \<in> set [0x9, 0xA, 0xB, 0xC, 0xD, 0x20, 0xA0, 0x1680, 0x2028, 0x2029, 0x202F, 0x205F,
              0x3000, 0xFEFF]
     \<or> (0x2000 \<le> c \<and> c \<le> 0x200A)"

definition trim :: "js_string \<Rightarrow> js_string" where
  "trim s = rev (dropWhile isWhiteSpace (rev (dropWhile isWhiteSpace s)))"

text \<open>\<^verbatim>\<open>Array.prototype.join\<close> on an array of strings.\<close>

fun join :: "js_string \<Rightarrow> js_string list \<Rightarrow> js_string" where
  "join sep [] = []"
| "join sep [x] = x"
| "join sep (x # y # ys) = x @ sep @ join sep (y # ys)"

subsection \<open>The literals of the page\<close>

definition key_latitude :: js_string where
  "key_latitude = ascii ''latitude''"

definition key_longitude :: js_string where
  "key_longitude = ascii ''longitude''"

definition key_geocoding_status :: js_string where
  "key_geocoding_status = ascii ''geocoding_status''"

definition key_error_message :: js_string where
  "key_error_message = ascii ''error_message''"

definition key_lat_lon :: js_string where
  "key_lat_lon = ascii ''lat_lon''"

text \<open>The status written at line 172 (U+6210 U+529F), the spec's \<open>success\<close>.\<close>

definition status_success :: js_string where
  "status_success = [0x6210, 0x529F]"

text \<open>The status written at line 177 (U+5931 U+6557), the spec's \<open>failure\<close>.\<close>

definition status_failure :: js_string where
  "status_failure = [0x5931, 0x6557]"

text \<open>The status written at line 184 (katakana), the spec's \<open>skipped\<close>.\<close>

definition status_skipped :: js_string where
  "status_skipped = [0x30B9, 0x30AD, 0x30C3, 0x30D7]"

text \<open>The message of a failed row, line 178: Japanese for "no result can be found".\<close>

definition msg_no_result :: js_string where
  "msg_no_result = [0x7D50, 0x679C, 0x304C, 0x898B, 0x3064, 0x304B, 0x308A, 0x307E, 0x305B, 0x3093]"

text \<open>The message of a skipped row, line 185: Japanese for "the address is empty".\<close>

definition msg_address_empty :: js_string where
  "msg_address_empty = [0x4F4F, 0x6240, 0x304C, 0x7A7A, 0x3067, 0x3059]"

text \<open>Line 123: "please select a file and address columns".\<close>

definition msg_select_file_and_columns :: js_string where
  "msg_select_file_and_columns =
     [0x30D5, 0x30A1, 0x30A4, 0x30EB, 0x3068, 0x4F4F, 0x6240, 0x5217, 0x3092, 0x9078, 0x629E,
      0x3057, 0x3066, 0x304F, 0x3060, 0x3055, 0x3044]"

text \<open>Line 128: "the geocoding service is loading, please wait...".\<close>

definition msg_geocoder_loading :: js_string where
  "msg_geocoder_loading =
     [0x30B8, 0x30AA, 0x30B3, 0x30FC, 0x30C7, 0x30A3, 0x30F3, 0x30B0, 0x30B5, 0x30FC, 0x30D3,
      0x30B9, 0x304C, 0x30ED, 0x30FC, 0x30C9, 0x4E2D, 0x3067, 0x3059, 0x3002, 0x304A, 0x5F85,
      0x3061, 0x304F, 0x3060, 0x3055, 0x3044, 0x2E, 0x2E, 0x2E]"

text \<open>Line 233: "there is no data to download".\<close>

definition msg_no_data :: js_string where
  "msg_no_data =
     [0x30C0, 0x30A6, 0x30F3, 0x30ED, 0x30FC, 0x30C9, 0x3059, 0x308B, 0x30C7, 0x30FC, 0x30BF,
      0x304C, 0x3042, 0x308A, 0x307E, 0x305B, 0x3093]"

text \<open>The prefix of a CSV reading error, lines 87, 201 and 332.\<close>

definition msg_csv_error :: js_string where
  "msg_csv_error =
     [0x43, 0x53, 0x56, 0x306E, 0x8AAD, 0x307F, 0x8FBC, 0x307F, 0x30A8, 0x30E9, 0x30FC, 0x3A, 0x20]"

text \<open>The prefix of a file decoding error, lines 91, 206 and 336.\<close>

definition msg_file_error :: js_string where
  "msg_file_error =
     [0x30D5, 0x30A1, 0x30A4, 0x30EB, 0x8AAD, 0x307F, 0x8FBC, 0x307F, 0x30A8, 0x30E9, 0x30FC,
      0x3A, 0x20]"

text \<open>The message of a failed file read, lines 95 and 211.\<close>

definition msg_read_failed :: js_string where
  "msg_read_failed =
     [0x30D5, 0x30A1, 0x30A4, 0x30EB, 0x306E, 0x8AAD, 0x307F, 0x8FBC, 0x307F, 0x306B, 0x5931,
      0x6557, 0x3057, 0x307E, 0x3057, 0x305F]"

text \<open>The prefix of a processing error, line 195.\<close>

definition msg_process_error :: js_string where
  "msg_process_error = [0x51E6, 0x7406, 0x30A8, 0x30E9, 0x30FC, 0x3A, 0x20]"

section \<open>Numbers\<close>

text \<open>
  A JavaScript number is an IEEE 754 binary64 value. The progress expression of line 189
  divides and multiplies, and each operation rounds its exact result to the nearest
  binary64 value, ties to even. The values met there are positive and in the normal range
  (an array has fewer than \<open>2 ^ 32\<close> elements, so the quotient is at least \<open>2 ^ - 32\<close> and
  the product at most \<open>100\<close>), so a binary64 value is modelled by the rational it denotes and
  the rounding by \<open>toDouble\<close>: \<open>exponent x\<close> is the binary exponent of \<open>x\<close>, and \<open>x\<close> is
  rounded to a multiple of \<open>2 powi (exponent x - 52)\<close>, which leaves 53 significant bits.
\<close>

definition roundTiesToEven :: "rat \<Rightarrow> int" where
  "roundTiesToEven x =
     (let f = \<lfloor>x\<rfloor>; d = x - of_int f
      in if d < 1 / 2 then f else if 1 / 2 < d then f + 1 else if even f then f else f + 1)"

definition exponent :: "rat \<Rightarrow> int" where
  "exponent x = (if 1 \<le> x then bitlen \<lfloor>x\<rfloor> - 1 else - bitlen (\<lceil>1 / x\<rceil> - 1))"

definition toDouble :: "rat \<Rightarrow> rat" where
  "toDouble x =
     (if x = 0 then 0
      else let ulp = 2 powi (exponent \<bar>x\<bar> - 52)
           in sgn x * of_int (roundTiesToEven (\<bar>x\<bar> / ulp)) * ulp)"

definition number_divide :: "rat \<Rightarrow> rat \<Rightarrow> rat" where
  "number_divide x y = toDouble (x / y)"

definition number_multiply :: "rat \<Rightarrow> rat \<Rightarrow> rat" where
  "number_multiply x y = toDouble (x * y)"

text \<open>\<^verbatim>\<open>Math.round\<close>: the nearest integer, a tie going up.\<close>

definition Math_round :: "rat \<Rightarrow> int" where
  "Math_round x = \<lfloor>x + 1 / 2\<rfloor>"

text \<open>
  The expression \<^verbatim>\<open>Math.round(((i + 1) / rows.length) * 100)\<close> of line 189, with
  \<open>completedCount = i + 1\<close> and \<open>totalCount = rows.length\<close>. The loop evaluates it only
  for \<open>i < rows.length\<close>, so the divisor is not zero there.
\<close>

definition progress_value :: "nat \<Rightarrow> nat \<Rightarrow> int" where
  "progress_value completedCount totalCount =
     Math_round (number_multiply (number_divide (of_nat completedCount) (of_nat totalCount)) 100)"


section \<open>Rows\<close>

text \<open>
  \<^verbatim>\<open>Papa.parse\<close> is called with \<^verbatim>\<open>header: true\<close> and without \<^verbatim>\<open>dynamicTyping\<close>. A parsed
  row is a plain object (\<^verbatim>\<open>{}\<close>) with one string field for each header name the line has a
  field for; the fields a line has beyond the header are stored as an array of strings
  under \<^verbatim>\<open>__parsed_extra\<close>. An object is modelled by the list of its own properties in
  enumeration order; the keys of an object are distinct. The pipeline adds number fields,
  so the rows it produces (\<^verbatim>\<open>GeocodedRow\<close>) hold strings, arrays of strings and numbers. The
  type of numbers is a parameter \<open>'n\<close>: the pipeline stores the coordinates it is given and
  computes nothing from them.
\<close>

datatype csv_value = Field js_string | Surplus "js_string list"

type_synonym csv_row = "(js_string \<times> csv_value) list"

datatype 'n js_value = VString js_string | VArray "js_string list" | VNumber 'n

type_synonym 'n GeocodedRow = "(js_string \<times> 'n js_value) list"

text \<open>\<^verbatim>\<open>Object.keys(row)\<close>.\<close>

definition Object_keys :: "('k \<times> 'v) list \<Rightarrow> 'k list" where
  "Object_keys row = map fst row"

text \<open>The spread \<^verbatim>\<open>...row\<close> of a parsed row into a new \<^verbatim>\<open>GeocodedRow\<close>: its own properties.\<close>

definition spread_value :: "csv_value \<Rightarrow> 'n js_value" where
  "spread_value v = (case v of Field s \<Rightarrow> VString s | Surplus xs \<Rightarrow> VArray xs)"

definition spread :: "csv_row \<Rightarrow> 'n GeocodedRow" where
  "spread row = map (\<lambda>(k, v). (k, spread_value v)) row"

text \<open>
  A field is present in a row when the row has it as a property of its own: \<open>map_of row k\<close>
  is that property, \<open>None\<close> when the row has none.
\<close>

definition present :: "'k \<Rightarrow> ('k \<times> 'v) list \<Rightarrow> bool" where
  "present k row \<longleftrightarrow> map_of row k \<noteq> None"

subsection \<open>Reading a property\<close>

text \<open>
  The read \<^verbatim>\<open>row[col]\<close> of line 158 follows the prototype chain: when the row has no
  property \<open>col\<close> of its own, the read finds the member of \<^verbatim>\<open>Object.prototype\<close> of that name,
  if there is one. These members are functions, but for \<^verbatim>\<open>__proto__\<close>, whose getter returns
  the prototype object. \<open>Object_prototype col\<close> is what \<^verbatim>\<open>String\<close> makes of the member, as V8
  prints it (engines differ in the white space inside the braces).
\<close>

definition native_function :: "js_string \<Rightarrow> js_string" where
  "native_function f = ascii ''function '' @ f @ ascii ''() { [native code] }''"

definition Object_prototype :: "js_string \<Rightarrow> js_string option" where
  "Object_prototype col =
     (if col = ascii ''constructor'' then Some (native_function (ascii ''Object''))
      else if col = ascii ''__proto__'' then Some (ascii ''[object Object]'')
      else if col \<in> set (map ascii
          [''toString'', ''toLocaleString'', ''valueOf'', ''hasOwnProperty'', ''isPrototypeOf'',
           ''propertyIsEnumerable'', ''__defineGetter__'', ''__defineSetter__'',
           ''__lookupGetter__'', ''__lookupSetter__''])
        then Some (native_function col)
      else None)"

text \<open>What a read yields: \<^verbatim>\<open>undefined\<close>, a property of the row's own, or an inherited member.\<close>

datatype property = Undefined | Own csv_value | Inherited js_string

definition get_property :: "csv_row \<Rightarrow> js_string \<Rightarrow> property" where
  "get_property row col =
     (case map_of row col of
        Some v \<Rightarrow> Own v
      | None \<Rightarrow> (case Object_prototype col of Some text \<Rightarrow> Inherited text | None \<Rightarrow> Undefined))"

text \<open>
  Truthiness and \<^verbatim>\<open>String(value)\<close>: \<^verbatim>\<open>undefined\<close> and the empty string are falsy, an array
  and a function are truthy; the string of an array is its elements joined by commas.
\<close>

definition truthy :: "property \<Rightarrow> bool" where
  "truthy v =
     (case v of Undefined \<Rightarrow> False | Own (Field s) \<Rightarrow> s \<noteq> [] | Own (Surplus xs) \<Rightarrow> True
      | Inherited text \<Rightarrow> True)"

definition String :: "property \<Rightarrow> js_string" where
  "String v =
     (case v of Undefined \<Rightarrow> ascii ''undefined'' | Own (Field s) \<Rightarrow> s
      | Own (Surplus xs) \<Rightarrow> join (ascii '','') xs | Inherited text \<Rightarrow> text)"

section \<open>The geocoding gateway\<close>

record 'n coords =
  lat :: 'n
  lng :: 'n

record 'n geocoder_result = "'n coords" +
  level :: 'n
  pref :: js_string
  city :: js_string
  town :: js_string
  addr :: js_string

text \<open>
  What a call of the global \<^verbatim>\<open>getLatLng(address, callback, errorCallback)\<close> does, as its
  declaration at lines 6 to 12 has it: the function may not be defined (the script is not
  loaded), it calls \<^verbatim>\<open>callback\<close> with a result, or it calls \<^verbatim>\<open>errorCallback\<close>. Like any
  function it may also throw before it has called either, or return and call neither, ever.
  The outcome is what happens first, which is what settles the promise of the wrapper.
  \<open>Throws reason\<close> carries the text line 195 prints for what was thrown. The gateway is a
  parameter of the model; its outcome may depend on the row being processed as well as on
  the address.
\<close>

datatype 'n getLatLng_outcome =
  NotDefined | Callback "'n geocoder_result" | ErrorCallback | Throws js_string | NoAnswer

type_synonym 'n gateway = "nat \<Rightarrow> js_string \<Rightarrow> 'n getLatLng_outcome"

text \<open>
  What becomes of a promise: it is resolved with a value, rejected with a reason, or stays
  pending for ever. \<^verbatim>\<open>await\<close> throws the reason of a rejected promise and never returns from
  a pending one.
\<close>

datatype 'a settled = Resolved 'a | Rejected js_string | Pending

text \<open>
  \<^verbatim>\<open>geocodeAddress\<close>, lines 100 to 119; \<open>None\<close> is \<^verbatim>\<open>null\<close>. The executor of the promise calls
  \<^verbatim>\<open>getLatLng\<close> outside any \<^verbatim>\<open>try\<close>, so what the call throws rejects the promise.
\<close>

definition geocodeAddress :: "'n gateway \<Rightarrow> nat \<Rightarrow> js_string \<Rightarrow> 'n coords option settled" where
  "geocodeAddress getLatLng i address =
     (case getLatLng i address of
        Callback result \<Rightarrow> Resolved (Some \<lparr>lat = lat result, lng = lng result\<rparr>)
      | ErrorCallback \<Rightarrow> Resolved None
      | NotDefined \<Rightarrow> Resolved None
      | Throws reason \<Rightarrow> Rejected reason
      | NoAnswer \<Rightarrow> Pending)"

section \<open>The row pipeline\<close>

text \<open>Lines 156 to 163: the address of a row.\<close>

definition buildAddress :: "js_string list \<Rightarrow> csv_row \<Rightarrow> js_string" where
  "buildAddress addressColumns row =
     (let addressParts =
        filter (\<lambda>part. length part > 0)
          (map (\<lambda>col. let v = get_property row col in if truthy v then trim (String v) else [])
             addressColumns)
      in join [] addressParts)"

text \<open>
  The address as the spec words it: the values of the selected columns in selection order
  (a column the record has no field for has no value), each trimmed, the empty ones
  dropped, the rest joined with no separator.
\<close>

definition spec_selected_values :: "js_string list \<Rightarrow> csv_row \<Rightarrow> js_string list" where
  "spec_selected_values cols row =
     concat (map (\<lambda>col. case map_of row col of None \<Rightarrow> [] | Some v \<Rightarrow> [String (Own v)]) cols)"

definition spec_address :: "js_string list \<Rightarrow> csv_row \<Rightarrow> js_string" where
  "spec_address cols row = concat (filter (\<lambda>v. v \<noteq> []) (map trim (spec_selected_values cols row)))"

text \<open>The three object literals of lines 168 to 186.\<close>

definition success_row :: "csv_row \<Rightarrow> 'n coords \<Rightarrow> 'n GeocodedRow" where
  "success_row row c =
     AList.update key_geocoding_status (VString status_success)
       (AList.update key_longitude (VNumber (lng c))
         (AList.update key_latitude (VNumber (lat c)) (spread row)))"

definition failure_row :: "csv_row \<Rightarrow> 'n GeocodedRow" where
  "failure_row row =
     AList.update key_error_message (VString msg_no_result)
       (AList.update key_geocoding_status (VString status_failure) (spread row))"

definition skipped_row :: "csv_row \<Rightarrow> 'n GeocodedRow" where
  "skipped_row row =
     AList.update key_error_message (VString msg_address_empty)
       (AList.update key_geocoding_status (VString status_skipped) (spread row))"

text \<open>
  What the loop has done so far: the rows pushed to \<^verbatim>\<open>geocodedRows\<close>, the values passed to
  \<^verbatim>\<open>setProgress\<close> and the addresses passed to \<^verbatim>\<open>geocodeAddress\<close>, each in order.
\<close>

record 'n run =
  geocodedRows :: "'n GeocodedRow list"
  reported :: "int list"
  calls :: "js_string list"

definition start_run :: "'n run" where
  "start_run = \<lparr>geocodedRows = [], reported = [], calls = []\<rparr>"

text \<open>
  How control leaves an iteration, or the loop: normally; by an exception, with the text of
  what was thrown; or not at all, waiting for a promise that stays pending. Each comes with
  the run so far.
\<close>

datatype 'n flow = Normal "'n run" | Thrown js_string "'n run" | Awaiting "'n run"

definition run_of :: "'n flow \<Rightarrow> 'n run" where
  "run_of fl = (case fl of Normal r \<Rightarrow> r | Thrown reason r \<Rightarrow> r | Awaiting r \<Rightarrow> r)"

text \<open>
  One iteration of the loop, lines 153 to 189. \<^verbatim>\<open>getLatLng\<close> is applied, inside
  \<open>geocodeAddress\<close>, to the address built for the row. A rejected promise makes the
  \<^verbatim>\<open>await\<close> of line 166 throw, which leaves the loop for the \<^verbatim>\<open>catch\<close> of line 194.
\<close>

definition process_row ::
  "'n gateway \<Rightarrow> js_string list \<Rightarrow> csv_row list \<Rightarrow> nat \<Rightarrow> 'n run \<Rightarrow> 'n flow" where
  "process_row getLatLng addressColumns rows i r =
     (let row = rows ! i;
          address = buildAddress addressColumns row;
          p = progress_value (i + 1) (length rows)
      in if address \<noteq> [] then
           (case geocodeAddress getLatLng i address of
              Rejected reason \<Rightarrow> Thrown reason (r\<lparr>calls := calls r @ [address]\<rparr>)
            | Pending \<Rightarrow> Awaiting (r\<lparr>calls := calls r @ [address]\<rparr>)
            | Resolved (Some c) \<Rightarrow>
                Normal (r\<lparr>geocodedRows := geocodedRows r @ [success_row row c],
                          reported := reported r @ [p],
                          calls := calls r @ [address]\<rparr>)
            | Resolved None \<Rightarrow>
                Normal (r\<lparr>geocodedRows := geocodedRows r @ [failure_row row],
                          reported := reported r @ [p],
                          calls := calls r @ [address]\<rparr>))
         else
           Normal (r\<lparr>geocodedRows := geocodedRows r @ [skipped_row row],
                     reported := reported r @ [p]\<rparr>))"

text \<open>The loop \<^verbatim>\<open>for (let i = 0; i < rows.length; i++)\<close> of line 152, from \<open>i\<close> on.\<close>

function row_loop ::
  "'n gateway \<Rightarrow> js_string list \<Rightarrow> csv_row list \<Rightarrow> nat \<Rightarrow> 'n run \<Rightarrow> 'n flow" where
  "row_loop getLatLng addressColumns rows i r =
     (if i < length rows then
        (case process_row getLatLng addressColumns rows i r of
           Normal r' \<Rightarrow> row_loop getLatLng addressColumns rows (Suc i) r'
         | Thrown reason r' \<Rightarrow> Thrown reason r'
         | Awaiting r' \<Rightarrow> Awaiting r')
      else Normal r)"
  by pat_completeness auto
termination
  by (relation "measure (\<lambda>(getLatLng, addressColumns, rows, i, r). length rows - i)") auto

declare row_loop.simps [simp del]

text \<open>
  The row one iteration pushes, if it pushes one, read off the branches of the loop body:
  it depends on the row, its index and the outcome of the gateway, and on nothing the loop
  did before. No row is pushed when the call throws or is never answered.
\<close>

definition outcome_row ::
  "'n gateway \<Rightarrow> js_string list \<Rightarrow> nat \<Rightarrow> csv_row \<Rightarrow> 'n GeocodedRow option" where
  "outcome_row getLatLng addressColumns i row =
     (let address = buildAddress addressColumns row
      in if address = [] then Some (skipped_row row)
         else case getLatLng i address of
                Callback result \<Rightarrow> Some (success_row row \<lparr>lat = lat result, lng = lng result\<rparr>)
              | ErrorCallback \<Rightarrow> Some (failure_row row)
              | NotDefined \<Rightarrow> Some (failure_row row)
              | Throws reason \<Rightarrow> None
              | NoAnswer \<Rightarrow> None)"

text \<open>The outcomes of all the rows of a file; every call is answered when none is \<open>None\<close>.\<close>

definition outcomes :: "'n gateway \<Rightarrow> js_string list \<Rightarrow> csv_row list \<Rightarrow> 'n GeocodedRow option list" where
  "outcomes getLatLng addressColumns rows =
     map (\<lambda>j. outcome_row getLatLng addressColumns j (rows ! j)) [0..<length rows]"

text \<open>A row has a status when its \<^verbatim>\<open>geocoding_status\<close> field holds that string.\<close>

definition has_status :: "js_string \<Rightarrow> 'n GeocodedRow \<Rightarrow> bool" where
  "has_status st row \<longleftrightarrow> map_of row key_geocoding_status = Some (VString st)"

section \<open>The page\<close>

record js_file =
  name :: js_string
  contents :: "8 word list"

datatype coordinate_format = Separate | Combined

text \<open>
  The state of the component \<^verbatim>\<open>Home\<close>, lines 23 to 33 (\<open>file'\<close> is the source's \<^verbatim>\<open>file\<close>).
\<close>

record 'n page_state =
  file' :: "js_file option"
  data :: "'n GeocodedRow list"
  addressColumns :: "js_string list"
  columns :: "js_string list"
  loading :: bool
  progress :: int
  error :: js_string
  success :: bool
  geocoderReady :: bool
  inputEncoding :: js_string
  coordinateFormat :: coordinate_format

text \<open>
  Reading a file, decoding it with an encoding and parsing the text as CSV is the work of
  \<^verbatim>\<open>FileReader\<close>, \<^verbatim>\<open>TextDecoder\<close> and \<^verbatim>\<open>Papa.parse\<close>. Its four ways to end are the four
  handlers of the page: \<^verbatim>\<open>reader.onerror\<close>, the \<^verbatim>\<open>catch\<close> around decoding, the \<^verbatim>\<open>error\<close>
  callback of the parser and its \<^verbatim>\<open>complete\<close> callback with the parsed rows.
\<close>

datatype read_outcome =
  ReaderError | DecodeThrows js_string | ParseError js_string | ParseComplete "csv_row list"

type_synonym file_reader = "js_file \<Rightarrow> js_string \<Rightarrow> read_outcome"

text \<open>The progress shown once the values of a run have been passed to \<^verbatim>\<open>setProgress\<close>.\<close>

definition last_progress :: "int \<Rightarrow> int list \<Rightarrow> int" where
  "last_progress p ps = last (p # ps)"

text \<open>
  \<^verbatim>\<open>handleProcess\<close>, lines 121 to 215. The result is the state once the handler and its
  callbacks are done, with the run of the row loop (empty when the loop is not reached).
  When the loop waits for a promise that stays pending, the callbacks are never done: the
  result is then the state the page stays in, with \<^verbatim>\<open>loading\<close> set.
\<close>

definition handleProcess ::
  "file_reader \<Rightarrow> 'n gateway \<Rightarrow> 'n page_state \<Rightarrow> 'n page_state \<times> 'n run" where
  "handleProcess read_file getLatLng s =
     (case file' s of
        None \<Rightarrow> (s\<lparr>error := msg_select_file_and_columns\<rparr>, start_run)
      | Some f \<Rightarrow>
          if length (addressColumns s) = 0 then
            (s\<lparr>error := msg_select_file_and_columns\<rparr>, start_run)
          else if \<not> geocoderReady s then
            (s\<lparr>error := msg_geocoder_loading\<rparr>, start_run)
          else
            (let s1 = s\<lparr>loading := True, progress := 0, error := []\<rparr>
             in case read_file f (inputEncoding s) of
                  ReaderError \<Rightarrow> (s1\<lparr>error := msg_read_failed, loading := False\<rparr>, start_run)
                | DecodeThrows m \<Rightarrow> (s1\<lparr>error := msg_file_error @ m, loading := False\<rparr>, start_run)
                | ParseError m \<Rightarrow> (s1\<lparr>error := msg_csv_error @ m, loading := False\<rparr>, start_run)
                | ParseComplete rows \<Rightarrow>
                    (case row_loop getLatLng (addressColumns s) rows 0 start_run of
                       Normal r \<Rightarrow>
                         (s1\<lparr>progress := last_progress 0 (reported r),
                             data := geocodedRows r, success := True, loading := False\<rparr>, r)
                     | Thrown reason r \<Rightarrow>
                         (s1\<lparr>progress := last_progress 0 (reported r),
                             error := msg_process_error @ reason, loading := False\<rparr>, r)
                     | Awaiting r \<Rightarrow>
                         (s1\<lparr>progress := last_progress 0 (reported r)\<rparr>, r))))"

text \<open>
  \<^verbatim>\<open>handleFileChange\<close>, lines 55 to 98, for the file the input element holds
  (\<^verbatim>\<open>e.target.files?.[0]\<close>). The file is decoded with the encoding selected at the time,
  and \<^verbatim>\<open>addressColumns\<close> in the \<^verbatim>\<open>complete\<close> callback is the selection of that time.
\<close>

definition handleFileChange ::
  "file_reader \<Rightarrow> js_file option \<Rightarrow> 'n page_state \<Rightarrow> 'n page_state" where
  "handleFileChange read_file selectedFile s =
     (case selectedFile of
        None \<Rightarrow> s
      | Some f \<Rightarrow>
          (let s1 = s\<lparr>file' := Some f, error := [], success := False, data := [], progress := 0\<rparr>
           in case read_file f (inputEncoding s) of
                ReaderError \<Rightarrow> s1\<lparr>error := msg_read_failed\<rparr>
              | DecodeThrows m \<Rightarrow> s1\<lparr>error := msg_file_error @ m\<rparr>
              | ParseError m \<Rightarrow> s1\<lparr>error := msg_csv_error @ m\<rparr>
              | ParseComplete rows \<Rightarrow>
                  if length rows > 0 then
                    (let cols = Object_keys (rows ! 0);
                         s2 = s1\<lparr>columns := cols\<rparr>
                     in if length (addressColumns s) = 0 \<and> length cols > 0
                        then s2\<lparr>addressColumns := [cols ! 0]\<rparr>
                        else s2)
                  else s1))"

text \<open>
  The \<^verbatim>\<open>onChange\<close> handler of the encoding selector, lines 311 to 340. The selector is
  rendered only while a file is selected (line 304). \<^verbatim>\<open>cols[0] || ""\<close> is the empty string
  when there is no first column or when it is the empty string.
\<close>

definition handleEncodingChange ::
  "file_reader \<Rightarrow> js_string \<Rightarrow> 'n page_state \<Rightarrow> 'n page_state" where
  "handleEncodingChange read_file v s =
     (case file' s of
        None \<Rightarrow> s
      | Some f \<Rightarrow>
          (let s1 = s\<lparr>inputEncoding := v\<rparr>
           in case read_file f v of
                ReaderError \<Rightarrow> s1
              | DecodeThrows m \<Rightarrow> s1\<lparr>error := msg_file_error @ m\<rparr>
              | ParseError m \<Rightarrow> s1\<lparr>error := msg_csv_error @ m\<rparr>
              | ParseComplete rows \<Rightarrow>
                  if length rows > 0 then
                    (let cols = Object_keys (rows ! 0)
                     in s1\<lparr>columns := cols,
                           addressColumns :=
                             [if cols \<noteq> [] \<and> cols ! 0 \<noteq> [] then cols ! 0 else []]\<rparr>)
                  else s1))"

section \<open>Export\<close>

text \<open>
  \<^verbatim>\<open>buildExportRows\<close>, lines 217 to 229. The template literal formats the two numbers with
  \<^verbatim>\<open>Number::toString\<close>, a parameter here as the type of numbers is. \<open>rest\<close> is the row
  without its \<^verbatim>\<open>latitude\<close> and \<^verbatim>\<open>longitude\<close> properties.
\<close>

definition combined_row :: "('n \<Rightarrow> js_string) \<Rightarrow> 'n GeocodedRow \<Rightarrow> 'n GeocodedRow" where
  "combined_row toString row =
     (let latitude = map_of row key_latitude;
          longitude = map_of row key_longitude;
          rest = filter (\<lambda>(k, v). k \<noteq> key_latitude \<and> k \<noteq> key_longitude) row
      in AList.update key_lat_lon
           (VString (case (latitude, longitude) of
                       (Some (VNumber x), Some (VNumber y)) \<Rightarrow> toString x @ ascii '','' @ toString y
                     | _ \<Rightarrow> []))
           rest)"

definition buildExportRows :: "('n \<Rightarrow> js_string) \<Rightarrow> 'n page_state \<Rightarrow> 'n GeocodedRow list" where
  "buildExportRows toString s =
     (if coordinateFormat s = Combined then map (combined_row toString) (data s) else data s)"

text \<open>
  \<^verbatim>\<open>handleDownload\<close>, lines 231 to 254: the state afterwards and the rows handed to
  \<^verbatim>\<open>Papa.unparse\<close>, if any. The serialisation and the download link are the browser's.
\<close>

definition handleDownload ::
  "('n \<Rightarrow> js_string) \<Rightarrow> 'n page_state \<Rightarrow> 'n page_state \<times> 'n GeocodedRow list option" where
  "handleDownload toString s =
     (if length (data s) = 0 then (s\<lparr>error := msg_no_data\<rparr>, None)
      else (s, Some (buildExportRows toString s)))"

section \<open>Example inputs\<close>

text \<open>
  A page with a file selected, one address column and the gateway loaded; a file of three
  rows, the second with a blank address; a gateway that knows one address and calls its
  error callback for any other.
\<close>

definition example_file :: js_file where
  "example_file = \<lparr>name = ascii ''in.csv'', contents = []\<rparr>"

definition example_rows :: "csv_row list" where
  "example_rows =
     [[(ascii ''addr'', Field (ascii ''Tokyo''))],
      [(ascii ''addr'', Field (ascii ''  ''))],
      [(ascii ''addr'', Field (ascii ''Nowhere''))]]"

definition example_reader :: file_reader where
  "example_reader f enc = ParseComplete example_rows"

definition example_result :: "int geocoder_result" where
  "example_result = \<lparr>lat = 35, lng = 139, level = 3, pref = [], city = [], town = [], addr = []\<rparr>"

definition example_gateway :: "int gateway" where
  "example_gateway i address = (if address = ascii ''Tokyo'' then Callback example_result else ErrorCallback)"

definition example_state :: "int page_state" where
  "example_state =
     \<lparr>file' = Some example_file, data = [], addressColumns = [ascii ''addr''],
      columns = [ascii ''addr''], loading = False, progress = 0, error = [], success = False,
      geocoderReady = True, inputEncoding = ascii ''UTF-8'', coordinateFormat = Separate\<rparr>"

text \<open>
  A gateway that knows the same address and throws an error with the message \<^verbatim>\<open>boom\<close> for
  any other, and one that never answers for any other.
\<close>

definition throwing_gateway :: "int gateway" where
  "throwing_gateway i address =
     (if address = ascii ''Tokyo'' then Callback example_result else Throws (ascii ''boom''))"

definition silent_gateway :: "int gateway" where
  "silent_gateway i address =
     (if address = ascii ''Tokyo'' then Callback example_result else NoAnswer)"

text \<open>A file that has coordinate and message columns of its own.\<close>

definition example_rows_with_coordinates :: "csv_row list" where
  "example_rows_with_coordinates =
     [[(ascii ''addr'', Field (ascii ''  '')), (ascii ''latitude'', Field (ascii ''35'')),
       (ascii ''longitude'', Field (ascii ''139'')), (ascii ''error_message'', Field (ascii ''old''))],
      [(ascii ''addr'', Field (ascii ''Tokyo'')), (ascii ''latitude'', Field (ascii ''35'')),
       (ascii ''longitude'', Field (ascii ''139'')), (ascii ''error_message'', Field (ascii ''old''))]]"

text \<open>
  A file with a column named \<^verbatim>\<open>constructor\<close> whose second line is short and has no field
  for it, and a page on which that column is the selection.
\<close>

definition example_rows_short_line :: "csv_row list" where
  "example_rows_short_line =
     [[(ascii ''addr'', Field (ascii ''Tokyo'')), (ascii ''constructor'', Field (ascii ''Acme''))],
      [(ascii ''addr'', Field (ascii ''Osaka''))]]"

definition example_state_constructor :: "int page_state" where
  "example_state_constructor = example_state\<lparr>addressColumns := [ascii ''constructor'']\<rparr>"

text \<open>A result set to export, and a way to print the two numbers in it.\<close>

definition example_toString :: "int \<Rightarrow> js_string" where
  "example_toString n = (if n = 35 then ascii ''35'' else ascii ''139'')"

definition example_data :: "int GeocodedRow list" where
  "example_data =
     [success_row [(ascii ''addr'', Field (ascii ''Tokyo''))] \<lparr>lat = 35, lng = 139\<rparr>,
      failure_row [(ascii ''addr'', Field (ascii ''Nowhere''))]]"


section \<open>Rounding to binary64\<close>




























section \<open>The loop, row by row\<close>

lemma process_row_Some:
  assumes "outcome_row gw cols i (rws ! i) = Some out"
  shows "process_row gw cols rws i r =
     Normal (r\<lparr>geocodedRows := geocodedRows r @ [out],
               reported := reported r @ [progress_value (Suc i) (length rws)],
               calls := calls r @ (if buildAddress cols (rws ! i) = [] then []
                                  else [buildAddress cols (rws ! i)])\<rparr>)"
  using assms
  by (auto simp add: process_row_def outcome_row_def geocodeAddress_def Let_def
      split: getLatLng_outcome.splits if_splits)

lemma process_row_None:
  assumes "outcome_row gw cols i (rws ! i) = None"
  shows "buildAddress cols (rws ! i) \<noteq> []
    \<and> ((\<exists>reason. gw i (buildAddress cols (rws ! i)) = Throws reason
           \<and> process_row gw cols rws i r
               = Thrown reason (r\<lparr>calls := calls r @ [buildAddress cols (rws ! i)]\<rparr>))
       \<or> (gw i (buildAddress cols (rws ! i)) = NoAnswer
           \<and> process_row gw cols rws i r
               = Awaiting (r\<lparr>calls := calls r @ [buildAddress cols (rws ! i)]\<rparr>)))"
  using assms
  by (auto simp add: process_row_def outcome_row_def geocodeAddress_def Let_def
      split: getLatLng_outcome.splits if_splits)

text \<open>
  The loop in general: it pushes the rows of the file in file order, with a progress value
  for each, up to the first row whose call throws or is never answered, if there is one.
\<close>

lemma row_loop_prefix:
  assumes "i \<le> length rws"
  shows "\<exists>k. i \<le> k \<and> k \<le> length rws
    \<and> map Some (geocodedRows (run_of (row_loop gw cols rws i r)))
        = map Some (geocodedRows r) @ map (\<lambda>j. outcome_row gw cols j (rws ! j)) [i..<k]
    \<and> reported (run_of (row_loop gw cols rws i r))
        = reported r @ map (\<lambda>j. progress_value (Suc j) (length rws)) [i..<k]
    \<and> (case row_loop gw cols rws i r of
          Normal r' \<Rightarrow> k = length rws
        | Thrown reason r' \<Rightarrow> k < length rws \<and> outcome_row gw cols k (rws ! k) = None
            \<and> gw k (buildAddress cols (rws ! k)) = Throws reason
        | Awaiting r' \<Rightarrow> k < length rws \<and> outcome_row gw cols k (rws ! k) = None
            \<and> gw k (buildAddress cols (rws ! k)) = NoAnswer)"
  using assms
proof (induction gw cols rws i r rule: row_loop.induct)
  case (1 gw cols rws i r)
  show ?case
  proof (cases "i < length rws")
    case False
    with "1.prems" have "i = length rws"
      by simp
    then show ?thesis
      by (subst (1 2 3) row_loop.simps) (simp add: run_of_def)
  next
    case True
    show ?thesis
    proof (cases "outcome_row gw cols i (rws ! i)")
      case None
      from process_row_None [OF None, of r] show ?thesis
        using True None
        by (subst (1 2 3) row_loop.simps) (auto simp add: run_of_def intro!: exI [of _ i])
    next
      case (Some out)
      let ?r1 = "r\<lparr>geocodedRows := geocodedRows r @ [out],
               reported := reported r @ [progress_value (Suc i) (length rws)],
               calls := calls r @ (if buildAddress cols (rws ! i) = [] then []
                                  else [buildAddress cols (rws ! i)])\<rparr>"
      have p: "process_row gw cols rws i r = Normal ?r1"
        using Some by (rule process_row_Some)
      have step: "row_loop gw cols rws i r = row_loop gw cols rws (Suc i) ?r1"
        using True p by (subst row_loop.simps) simp
      from "1.IH" [OF True p] True
      obtain k where k: "Suc i \<le> k" "k \<le> length rws"
        "map Some (geocodedRows (run_of (row_loop gw cols rws (Suc i) ?r1)))
          = map Some (geocodedRows ?r1) @ map (\<lambda>j. outcome_row gw cols j (rws ! j)) [Suc i..<k]"
        "reported (run_of (row_loop gw cols rws (Suc i) ?r1))
          = reported ?r1 @ map (\<lambda>j. progress_value (Suc j) (length rws)) [Suc i..<k]"
        "(case row_loop gw cols rws (Suc i) ?r1 of
            Normal r' \<Rightarrow> k = length rws
          | Thrown reason r' \<Rightarrow> k < length rws \<and> outcome_row gw cols k (rws ! k) = None
              \<and> gw k (buildAddress cols (rws ! k)) = Throws reason
          | Awaiting r' \<Rightarrow> k < length rws \<and> outcome_row gw cols k (rws ! k) = None
              \<and> gw k (buildAddress cols (rws ! k)) = NoAnswer)"
        by auto
      have up: "[i..<k] = i # [Suc i..<k]"
        using k(1) by (simp add: upt_conv_Cons)
      show ?thesis
        unfolding step
        using k Some by (intro exI [of _ k]) (simp add: up)
    qed
  qed
qed


lemma outcomes_nth:
  "j < length rws \<Longrightarrow> outcomes gw cols rws ! j = outcome_row gw cols j (rws ! j)"
  by (simp add: outcomes_def)

lemma length_outcomes: "length (outcomes gw cols rws) = length rws"
  by (simp add: outcomes_def)

lemma take_outcomes:
  "k \<le> length rws \<Longrightarrow> take k (outcomes gw cols rws) = map (\<lambda>j. outcome_row gw cols j (rws ! j)) [0..<k]"
  by (simp add: outcomes_def take_map)

text \<open>The loop from the start.\<close>

lemma row_loop_start:
  "\<exists>k\<le>length rws.
     map Some (geocodedRows (run_of (row_loop gw cols rws 0 start_run))) = take k (outcomes gw cols rws)
     \<and> reported (run_of (row_loop gw cols rws 0 start_run))
         = map (\<lambda>j. progress_value (Suc j) (length rws)) [0..<k]
     \<and> (case row_loop gw cols rws 0 start_run of
           Normal r' \<Rightarrow> k = length rws
         | Thrown reason r' \<Rightarrow> k < length rws \<and> outcomes gw cols rws ! k = None
             \<and> gw k (buildAddress cols (rws ! k)) = Throws reason
         | Awaiting r' \<Rightarrow> k < length rws \<and> outcomes gw cols rws ! k = None
             \<and> gw k (buildAddress cols (rws ! k)) = NoAnswer)"
proof -
  from row_loop_prefix [of 0 rws gw cols start_run]
  obtain k where k: "k \<le> length rws"
    "map Some (geocodedRows (run_of (row_loop gw cols rws 0 start_run)))
        = map Some (geocodedRows (start_run :: 'a run)) @ map (\<lambda>j. outcome_row gw cols j (rws ! j)) [0..<k]"
    "reported (run_of (row_loop gw cols rws 0 start_run))
        = reported (start_run :: 'a run) @ map (\<lambda>j. progress_value (Suc j) (length rws)) [0..<k]"
    "(case row_loop gw cols rws 0 start_run of
          Normal r' \<Rightarrow> k = length rws
        | Thrown reason r' \<Rightarrow> k < length rws \<and> outcome_row gw cols k (rws ! k) = None
            \<and> gw k (buildAddress cols (rws ! k)) = Throws reason
        | Awaiting r' \<Rightarrow> k < length rws \<and> outcome_row gw cols k (rws ! k) = None
            \<and> gw k (buildAddress cols (rws ! k)) = NoAnswer)"
    by auto
  show ?thesis
    using k
    by (intro exI [of _ k]) (auto simp add: start_run_def take_outcomes outcomes_nth split: flow.splits)
qed

text \<open>When every call is answered the loop ends normally, with a row for each row of the file.\<close>

lemma row_loop_answered:
  assumes "None \<notin> set (outcomes gw cols rws)"
  shows "\<exists>r. row_loop gw cols rws 0 start_run = Normal r
    \<and> map Some (geocodedRows r) = outcomes gw cols rws
    \<and> reported r = map (\<lambda>j. progress_value (Suc j) (length rws)) [0..<length rws]"
proof -
  have some: "outcomes gw cols rws ! k \<noteq> None" if "k < length rws" for k
    using assms that by (metis length_outcomes nth_mem)
  from row_loop_start [of rws gw cols] some show ?thesis
    by (cases "row_loop gw cols rws 0 start_run") (fastforce simp add: run_of_def length_outcomes)+
qed

text \<open>A run whose preconditions hold and whose file parses.\<close>

lemma handleProcess_started:
  assumes "file' s = Some f" and "addressColumns s \<noteq> []" and "geocoderReady s"
    and "read_file f (inputEncoding s) = ParseComplete rws"
  shows "handleProcess read_file gw s =
     (case row_loop gw (addressColumns s) rws 0 start_run of
        Normal r \<Rightarrow>
          (s\<lparr>loading := False, error := [], success := True, data := geocodedRows r,
             progress := last_progress 0 (reported r)\<rparr>, r)
      | Thrown reason r \<Rightarrow>
          (s\<lparr>loading := False, error := msg_process_error @ reason,
             progress := last_progress 0 (reported r)\<rparr>, r)
      | Awaiting r \<Rightarrow>
          (s\<lparr>loading := True, error := [], progress := last_progress 0 (reported r)\<rparr>, r))"
  using assms by (simp add: handleProcess_def Let_def split: flow.split)

lemma handleProcess_run_of:
  assumes "file' s = Some f" and "addressColumns s \<noteq> []" and "geocoderReady s"
    and "read_file f (inputEncoding s) = ParseComplete rws"
  shows "snd (handleProcess read_file gw s) = run_of (row_loop gw (addressColumns s) rws 0 start_run)"
  using assms
  by (simp add: handleProcess_started [where f = f and rws = rws] run_of_def split: flow.split)

text \<open>What any started run has pushed and reported.\<close>

lemma handleProcess_pushed:
  assumes "file' s = Some f" and "addressColumns s \<noteq> []" and "geocoderReady s"
    and "read_file f (inputEncoding s) = ParseComplete rws"
  shows "\<exists>k\<le>length rws.
     map Some (geocodedRows (snd (handleProcess read_file gw s)))
       = take k (outcomes gw (addressColumns s) rws)
     \<and> reported (snd (handleProcess read_file gw s))
         = map (\<lambda>j. progress_value (Suc j) (length rws)) [0..<k]"
  using row_loop_start [of rws gw "addressColumns s"]
  unfolding handleProcess_run_of [OF assms(1-3), where read_file = read_file and rws = rws and gw = gw, OF assms(4)]
  by blast

text \<open>A started run in which every call is answered.\<close>

lemma handleProcess_answered:
  assumes "file' s = Some f" and "addressColumns s \<noteq> []" and "geocoderReady s"
    and "read_file f (inputEncoding s) = ParseComplete rws"
    and "None \<notin> set (outcomes gw (addressColumns s) rws)"
  shows "\<exists>r. handleProcess read_file gw s =
       (s\<lparr>loading := False, error := [], success := True, data := geocodedRows r,
          progress := last_progress 0 (reported r)\<rparr>, r)
     \<and> map Some (geocodedRows r) = outcomes gw (addressColumns s) rws
     \<and> reported r = map (\<lambda>j. progress_value (Suc j) (length rws)) [0..<length rws]"
proof -
  from row_loop_answered [OF assms(5)]
  obtain r where r: "row_loop gw (addressColumns s) rws 0 start_run = Normal r"
    "map Some (geocodedRows r) = outcomes gw (addressColumns s) rws"
    "reported r = map (\<lambda>j. progress_value (Suc j) (length rws)) [0..<length rws]"
    by blast
  show ?thesis
    using r assms(1-4)
    by (intro exI [of _ r]) (simp add: handleProcess_started [where f = f and rws = rws])
qed

section \<open>What a row of the result holds\<close>

lemma keys_distinct:
  "key_latitude \<noteq> key_longitude" "key_latitude \<noteq> key_geocoding_status"
  "key_latitude \<noteq> key_error_message" "key_latitude \<noteq> key_lat_lon"
  "key_longitude \<noteq> key_geocoding_status" "key_longitude \<noteq> key_error_message"
  "key_longitude \<noteq> key_lat_lon" "key_geocoding_status \<noteq> key_error_message"
  "key_geocoding_status \<noteq> key_lat_lon" "key_error_message \<noteq> key_lat_lon"
  by (simp_all add: key_latitude_def key_longitude_def key_geocoding_status_def
      key_error_message_def key_lat_lon_def ascii_def)

lemma statuses_distinct:
  "status_success \<noteq> status_failure" "status_success \<noteq> status_skipped"
  "status_failure \<noteq> status_skipped"
  by (simp_all add: status_success_def status_failure_def status_skipped_def)

lemma trim_Nil: "trim [] = []"
  by (simp add: trim_def)

lemma map_of_spread: "map_of (spread row) k = map_option spread_value (map_of row k)"
  by (induction row) (auto simp add: spread_def)

lemma map_of_success_row:
  "map_of (success_row row c) k =
     (if k = key_geocoding_status then Some (VString status_success)
      else if k = key_longitude then Some (VNumber (lng c))
      else if k = key_latitude then Some (VNumber (lat c))
      else map_option spread_value (map_of row k))"
  by (simp add: success_row_def update_conv' map_of_spread)

lemma map_of_failure_row:
  "map_of (failure_row row) k =
     (if k = key_error_message then Some (VString msg_no_result)
      else if k = key_geocoding_status then Some (VString status_failure)
      else map_option spread_value (map_of row k))"
  by (simp add: failure_row_def update_conv' map_of_spread)

lemma map_of_skipped_row:
  "map_of (skipped_row row) k =
     (if k = key_error_message then Some (VString msg_address_empty)
      else if k = key_geocoding_status then Some (VString status_skipped)
      else map_option spread_value (map_of row k))"
  by (simp add: skipped_row_def update_conv' map_of_spread)

lemma has_status_success_row: "has_status st (success_row row c :: 'n GeocodedRow) \<longleftrightarrow> st = status_success"
  by (auto simp add: has_status_def map_of_success_row)

lemma has_status_failure_row: "has_status st (failure_row row :: 'n GeocodedRow) \<longleftrightarrow> st = status_failure"
  by (auto simp add: has_status_def map_of_failure_row keys_distinct)

lemma has_status_skipped_row: "has_status st (skipped_row row :: 'n GeocodedRow) \<longleftrightarrow> st = status_skipped"
  by (auto simp add: has_status_def map_of_skipped_row keys_distinct)

lemma present_success_row:
  "present k (success_row row c :: 'n GeocodedRow) \<longleftrightarrow>
     k = key_geocoding_status \<or> k = key_longitude \<or> k = key_latitude \<or> present k row"
  by (simp add: present_def map_of_success_row)

lemma present_failure_row:
  "present k (failure_row row :: 'n GeocodedRow) \<longleftrightarrow>
     k = key_error_message \<or> k = key_geocoding_status \<or> present k row"
  by (simp add: present_def map_of_failure_row)

lemma present_skipped_row:
  "present k (skipped_row row :: 'n GeocodedRow) \<longleftrightarrow>
     k = key_error_message \<or> k = key_geocoding_status \<or> present k row"
  by (simp add: present_def map_of_skipped_row)

lemma outcome_row_shape:
  assumes "outcome_row gw cols i row = Some out"
  shows "out = skipped_row row \<or> out = failure_row row \<or> (\<exists>c. out = success_row row c)"
  using assms
  by (auto simp add: outcome_row_def Let_def split: getLatLng_outcome.splits if_splits)

lemma outcome_row_status:
  fixes out :: "'n GeocodedRow"
  assumes "outcome_row gw cols i row = Some out"
  shows "(\<exists>!st. st \<in> {status_success, status_failure, status_skipped} \<and> has_status st out)
    \<and> (has_status status_success out \<longrightarrow>
         (\<exists>x y. map_of out key_latitude = Some (VNumber x) \<and> map_of out key_longitude = Some (VNumber y)))
    \<and> (has_status status_failure out \<or> has_status status_skipped out \<longrightarrow>
         (\<exists>m. map_of out key_error_message = Some (VString m)))
    \<and> (\<not> present key_latitude row \<and> \<not> present key_longitude row \<longrightarrow>
         (present key_latitude out \<and> present key_longitude out \<longleftrightarrow> has_status status_success out)
         \<and> (present key_latitude out \<longleftrightarrow> present key_longitude out))
    \<and> (\<not> present key_error_message row \<longrightarrow>
         (present key_error_message out \<longleftrightarrow>
            has_status status_failure out \<or> has_status status_skipped out))"
proof -
  from outcome_row_shape [OF assms]
  consider (skip) "out = skipped_row row" | (fail) "out = failure_row row"
    | (ok) c where "out = success_row row c"
    by blast
  then show ?thesis
  proof cases
    case skip
    then show ?thesis
      using statuses_distinct keys_distinct
      by (auto simp add: has_status_skipped_row present_skipped_row map_of_skipped_row)
  next
    case fail
    then show ?thesis
      using statuses_distinct keys_distinct
      by (auto simp add: has_status_failure_row present_failure_row map_of_failure_row)
  next
    case ok
    then show ?thesis
      using statuses_distinct keys_distinct
      by (auto simp add: has_status_success_row present_success_row map_of_success_row)
  qed
qed

text \<open>Row \<open>i\<close> of what a started run has pushed is the outcome of row \<open>i\<close> of the file.\<close>

lemma pushed_nth:
  assumes "file' s = Some f" and "addressColumns s \<noteq> []" and "geocoderReady s"
    and "read_file f (inputEncoding s) = ParseComplete rws"
    and "i < length (geocodedRows (snd (handleProcess read_file gw s)))"
  shows "i < length rws"
    "outcome_row gw (addressColumns s) i (rws ! i)
       = Some (geocodedRows (snd (handleProcess read_file gw s)) ! i)"
proof -
  from handleProcess_pushed [OF assms(1-3), where read_file = read_file and rws = rws and gw = gw, OF assms(4)]
  obtain k where k: "k \<le> length rws"
    "map Some (geocodedRows (snd (handleProcess read_file gw s)))
       = take k (outcomes gw (addressColumns s) rws)"
    by blast
  from k have "length (geocodedRows (snd (handleProcess read_file gw s))) = k"
    by (metis length_map length_outcomes length_take min.absorb2)
  with assms(5) k(1) have ik: "i < k" and i: "i < length rws"
    by simp_all
  show "i < length rws"
    by (rule i)
  have "map Some (geocodedRows (snd (handleProcess read_file gw s))) ! i
      = take k (outcomes gw (addressColumns s) rws) ! i"
    by (simp only: k(2))
  then show "outcome_row gw (addressColumns s) i (rws ! i)
       = Some (geocodedRows (snd (handleProcess read_file gw s)) ! i)"
    using assms(5) ik i by (simp add: outcomes_nth)
qed

lemmas example_defs =
  example_state_def example_file_def example_rows_def example_reader_def example_gateway_def
  example_result_def example_rows_with_coordinates_def throwing_gateway_def silent_gateway_def
  example_rows_short_line_def example_state_constructor_def

lemmas row_defs =
  outcome_row_def buildAddress_def get_property_def Object_prototype_def native_function_def
  truthy_def String_def trim_def isWhiteSpace_def ascii_def success_row_def
  failure_row_def skipped_row_def spread_def spread_value_def has_status_def present_def
  key_latitude_def key_longitude_def key_geocoding_status_def key_error_message_def
  status_success_def status_failure_def status_skipped_def

text \<open>The state and the run when every call is answered.\<close>

lemma handleProcess_answered_fields:
  assumes "file' s = Some f" and "addressColumns s \<noteq> []" and "geocoderReady s"
    and "read_file f (inputEncoding s) = ParseComplete rws"
    and "None \<notin> set (outcomes gw (addressColumns s) rws)"
  shows "map Some (data (fst (handleProcess read_file gw s))) = outcomes gw (addressColumns s) rws"
    "geocodedRows (snd (handleProcess read_file gw s)) = data (fst (handleProcess read_file gw s))"
    "reported (snd (handleProcess read_file gw s))
       = map (\<lambda>j. progress_value (Suc j) (length rws)) [0..<length rws]"
    "progress (fst (handleProcess read_file gw s))
       = last_progress 0 (map (\<lambda>j. progress_value (Suc j) (length rws)) [0..<length rws])"
    "success (fst (handleProcess read_file gw s))" "\<not> loading (fst (handleProcess read_file gw s))"
    "error (fst (handleProcess read_file gw s)) = []"
    "length (data (fst (handleProcess read_file gw s))) = length rws"
proof -
  from handleProcess_answered [OF assms(1-3), where read_file = read_file and rws = rws and gw = gw,
      OF assms(4,5)]
  obtain r where r: "handleProcess read_file gw s =
       (s\<lparr>loading := False, error := [], success := True, data := geocodedRows r,
          progress := last_progress 0 (reported r)\<rparr>, r)"
     "map Some (geocodedRows r) = outcomes gw (addressColumns s) rws"
     "reported r = map (\<lambda>j. progress_value (Suc j) (length rws)) [0..<length rws]"
    by blast
  show "map Some (data (fst (handleProcess read_file gw s))) = outcomes gw (addressColumns s) rws"
    "geocodedRows (snd (handleProcess read_file gw s)) = data (fst (handleProcess read_file gw s))"
    "reported (snd (handleProcess read_file gw s))
       = map (\<lambda>j. progress_value (Suc j) (length rws)) [0..<length rws]"
    "progress (fst (handleProcess read_file gw s))
       = last_progress 0 (map (\<lambda>j. progress_value (Suc j) (length rws)) [0..<length rws])"
    "success (fst (handleProcess read_file gw s))" "\<not> loading (fst (handleProcess read_file gw s))"
    "error (fst (handleProcess read_file gw s)) = []"
    using r by simp_all
  from r(2) have "length (geocodedRows r) = length rws"
    by (metis length_map length_outcomes)
  then show "length (data (fst (handleProcess read_file gw s))) = length rws"
    using r(1) by simp
qed

lemma map_Some_eq: "map Some xs = map Some ys \<Longrightarrow> xs = ys"
  by (simp add: inj_map_eq_map)

text \<open>The examples, run.\<close>

lemma example_outcomes:
  "outcomes example_gateway [ascii ''addr''] example_rows
     = map Some [success_row (example_rows ! 0) \<lparr>lat = 35, lng = 139\<rparr>,
        skipped_row (example_rows ! 1), failure_row (example_rows ! 2)]"
  by (simp add: outcomes_def upt_rec_numeral example_defs outcome_row_def buildAddress_def
      get_property_def truthy_def String_def trim_def isWhiteSpace_def ascii_def)

lemma example_outcomes_with_coordinates:
  "outcomes example_gateway [ascii ''addr''] example_rows_with_coordinates
     = map Some [skipped_row (example_rows_with_coordinates ! 0),
        success_row (example_rows_with_coordinates ! 1) \<lparr>lat = 35, lng = 139\<rparr>]"
  by (simp add: outcomes_def upt_rec_numeral example_defs outcome_row_def buildAddress_def
      get_property_def truthy_def String_def trim_def isWhiteSpace_def ascii_def)

lemma example_started:
  "file' example_state = Some example_file" "addressColumns example_state \<noteq> []"
  "geocoderReady example_state" "addressColumns example_state = [ascii ''addr'']"
  "example_reader example_file (inputEncoding example_state) = ParseComplete example_rows"
  by (simp_all add: example_defs)

lemma example_run:
  "data (fst (handleProcess example_reader example_gateway example_state))
     = [success_row (example_rows ! 0) \<lparr>lat = 35, lng = 139\<rparr>,
        skipped_row (example_rows ! 1), failure_row (example_rows ! 2)]"
  "geocodedRows (snd (handleProcess example_reader example_gateway example_state))
     = [success_row (example_rows ! 0) \<lparr>lat = 35, lng = 139\<rparr>,
        skipped_row (example_rows ! 1), failure_row (example_rows ! 2)]"
proof -
  have n: "None \<notin> set (outcomes example_gateway (addressColumns example_state) example_rows)"
    by (simp add: example_started(4) example_outcomes)
  note a = handleProcess_answered_fields [where s = example_state and f = example_file
      and read_file = example_reader and rws = example_rows and gw = example_gateway,
      OF example_started(1,2,3,5) n]
  from a(1) show d: "data (fst (handleProcess example_reader example_gateway example_state))
     = [success_row (example_rows ! 0) \<lparr>lat = 35, lng = 139\<rparr>,
        skipped_row (example_rows ! 1), failure_row (example_rows ! 2)]"
    unfolding example_started(4) example_outcomes by (rule map_Some_eq)
  from a(2) d show "geocodedRows (snd (handleProcess example_reader example_gateway example_state))
     = [success_row (example_rows ! 0) \<lparr>lat = 35, lng = 139\<rparr>,
        skipped_row (example_rows ! 1), failure_row (example_rows ! 2)]"
    by simp
qed

lemma example_run_with_coordinates:
  "data (fst (handleProcess (\<lambda>f enc. ParseComplete example_rows_with_coordinates)
      example_gateway example_state))
     = [skipped_row (example_rows_with_coordinates ! 0),
        success_row (example_rows_with_coordinates ! 1) \<lparr>lat = 35, lng = 139\<rparr>]"
proof -
  have n: "None \<notin> set (outcomes example_gateway (addressColumns example_state)
      example_rows_with_coordinates)"
    by (simp add: example_started(4) example_outcomes_with_coordinates)
  have p: "(\<lambda>f enc. ParseComplete example_rows_with_coordinates) example_file
      (inputEncoding example_state) = ParseComplete example_rows_with_coordinates"
    by simp
  note a = handleProcess_answered_fields [where s = example_state and f = example_file
      and read_file = "\<lambda>f enc. ParseComplete example_rows_with_coordinates"
      and rws = example_rows_with_coordinates and gw = example_gateway,
      OF example_started(1,2,3) p n]
  from a(1) show ?thesis
    unfolding example_started(4) example_outcomes_with_coordinates by (rule map_Some_eq)
qed

section \<open>Starting a run\<close>

text \<open>
  Claim C7. When no file is selected, or no address column is selected, or the gateway is
  not ready, \<^verbatim>\<open>handleProcess\<close> only sets the error message: every other part of the state,
  the result set \<^verbatim>\<open>data\<close> among them, is as before, no row is processed, nothing is
  reported as progress and the gateway is not called. The message of a gateway that is not
  ready differs from the message of a missing file or selection.
\<close>

theorem run_never_starts:
  assumes "file' s = None \<or> addressColumns s = [] \<or> \<not> geocoderReady s"
  shows "error (fst (handleProcess read_file gw s)) \<in> {msg_select_file_and_columns, msg_geocoder_loading}
    \<and> error (fst (handleProcess read_file gw s)) \<noteq> []
    \<and> fst (handleProcess read_file gw s) = s\<lparr>error := error (fst (handleProcess read_file gw s))\<rparr>
    \<and> data (fst (handleProcess read_file gw s)) = data s
    \<and> snd (handleProcess read_file gw s) = start_run
    \<and> calls (snd (handleProcess read_file gw s)) = []
    \<and> reported (snd (handleProcess read_file gw s)) = []
    \<and> geocodedRows (snd (handleProcess read_file gw s)) = []
    \<and> (file' s \<noteq> None \<and> addressColumns s \<noteq> [] \<longrightarrow>
         error (fst (handleProcess read_file gw s)) = msg_geocoder_loading)
    \<and> msg_geocoder_loading \<noteq> msg_select_file_and_columns"
  using assms
  by (auto simp add: handleProcess_def start_run_def msg_select_file_and_columns_def
      msg_geocoder_loading_def split: option.splits)

theorem run_never_starts_witness:
  "file' (example_state\<lparr>file' := None\<rparr>) = None
   \<and> error (fst (handleProcess example_reader example_gateway (example_state\<lparr>file' := None\<rparr>)))
       = msg_select_file_and_columns
   \<and> snd (handleProcess example_reader example_gateway (example_state\<lparr>file' := None\<rparr>)) = start_run
   \<and> addressColumns (example_state\<lparr>addressColumns := []\<rparr>) = []
   \<and> error (fst (handleProcess example_reader example_gateway (example_state\<lparr>addressColumns := []\<rparr>)))
       = msg_select_file_and_columns
   \<and> snd (handleProcess example_reader example_gateway (example_state\<lparr>addressColumns := []\<rparr>)) = start_run
   \<and> \<not> geocoderReady (example_state\<lparr>geocoderReady := False\<rparr>)
   \<and> error (fst (handleProcess example_reader example_gateway (example_state\<lparr>geocoderReady := False\<rparr>)))
       = msg_geocoder_loading
   \<and> data (fst (handleProcess example_reader example_gateway (example_state\<lparr>geocoderReady := False\<rparr>))) = []
   \<and> snd (handleProcess example_reader example_gateway (example_state\<lparr>geocoderReady := False\<rparr>)) = start_run"
  using run_never_starts [of "example_state\<lparr>file' := None\<rparr>" example_reader example_gateway]
    run_never_starts [of "example_state\<lparr>addressColumns := []\<rparr>" example_reader example_gateway]
    run_never_starts [of "example_state\<lparr>geocoderReady := False\<rparr>" example_reader example_gateway]
  by (simp add: example_state_def handleProcess_def)

section \<open>A file without rows\<close>

text \<open>
  Claim C10. When the preconditions hold and the file parses to no row at all, the run ends
  with an empty result set and the success flag set, without an error; no progress value is
  reported, so the progress stays at the 0 set before the file is read and the progress
  expression, with its division by the number of rows, is never evaluated; the gateway is
  not called.
\<close>

theorem empty_file_run:
  assumes "file' s = Some f" and "addressColumns s \<noteq> []" and "geocoderReady s"
    and "read_file f (inputEncoding s) = ParseComplete []"
  shows "data (fst (handleProcess read_file gw s)) = []
    \<and> success (fst (handleProcess read_file gw s))
    \<and> \<not> loading (fst (handleProcess read_file gw s))
    \<and> error (fst (handleProcess read_file gw s)) = []
    \<and> progress (fst (handleProcess read_file gw s)) = 0
    \<and> reported (snd (handleProcess read_file gw s)) = []
    \<and> calls (snd (handleProcess read_file gw s)) = []"
  using assms
  by (simp add: handleProcess_started [where f = f and rws = "[]"] row_loop.simps start_run_def
      last_progress_def)

theorem empty_file_run_witness:
  "file' example_state = Some example_file \<and> addressColumns example_state \<noteq> []
   \<and> geocoderReady example_state
   \<and> data (fst (handleProcess (\<lambda>f enc. ParseComplete []) example_gateway example_state)) = []
   \<and> success (fst (handleProcess (\<lambda>f enc. ParseComplete []) example_gateway example_state))
   \<and> progress (fst (handleProcess (\<lambda>f enc. ParseComplete []) example_gateway example_state)) = 0
   \<and> reported (snd (handleProcess (\<lambda>f enc. ParseComplete []) example_gateway example_state)) = []"
  using empty_file_run [of example_state example_file "\<lambda>f enc. ParseComplete []" example_gateway]
  by (simp add: example_state_def)

section \<open>The statuses of the rows\<close>

text \<open>
  Claim C2, as stated, fails: a row that is skipped or fails keeps the \<^verbatim>\<open>latitude\<close> and
  \<^verbatim>\<open>longitude\<close> fields the file gave it, and a row that succeeds keeps the file's
  \<^verbatim>\<open>error_message\<close> field.
\<close>

theorem status_invariant_counterexample:
  "present key_latitude
     (data (fst (handleProcess (\<lambda>f enc. ParseComplete example_rows_with_coordinates)
        example_gateway example_state)) ! 0)
   \<and> present key_longitude
     (data (fst (handleProcess (\<lambda>f enc. ParseComplete example_rows_with_coordinates)
        example_gateway example_state)) ! 0)
   \<and> has_status status_skipped
     (data (fst (handleProcess (\<lambda>f enc. ParseComplete example_rows_with_coordinates)
        example_gateway example_state)) ! 0)
   \<and> \<not> has_status status_success
     (data (fst (handleProcess (\<lambda>f enc. ParseComplete example_rows_with_coordinates)
        example_gateway example_state)) ! 0)
   \<and> has_status status_success
     (data (fst (handleProcess (\<lambda>f enc. ParseComplete example_rows_with_coordinates)
        example_gateway example_state)) ! 1)
   \<and> present key_error_message
     (data (fst (handleProcess (\<lambda>f enc. ParseComplete example_rows_with_coordinates)
        example_gateway example_state)) ! 1)"
proof -
  have "present key_latitude (example_rows_with_coordinates ! 0)"
    "present key_longitude (example_rows_with_coordinates ! 0)"
    "present key_error_message (example_rows_with_coordinates ! 1)"
    by (simp_all add: example_rows_with_coordinates_def present_def key_latitude_def
        key_longitude_def key_error_message_def ascii_def)
  then show ?thesis
    using keys_distinct statuses_distinct
    by (simp add: example_run_with_coordinates present_skipped_row present_success_row
        has_status_skipped_row has_status_success_row)
qed

text \<open>
  Claim C2, amended. Every row the pipeline produces has exactly one of the three statuses;
  a row with status success holds numbers in \<^verbatim>\<open>latitude\<close> and \<^verbatim>\<open>longitude\<close>, and a failed or
  skipped row holds a message in \<^verbatim>\<open>error_message\<close>. When the row of the file has no
  \<^verbatim>\<open>latitude\<close> and no \<^verbatim>\<open>longitude\<close> field of its own, the two are present exactly when the
  status is success; when it has no \<^verbatim>\<open>error_message\<close> field of its own, that field is present
  exactly when the status is failure or skipped. This holds for every row the loop pushes,
  whatever the gateway does for the rows after it; when every call is answered these rows
  are the result set, one for each row of the file.
\<close>

theorem status_invariant:
  assumes "file' s = Some f" and "addressColumns s \<noteq> []" and "geocoderReady s"
    and "read_file f (inputEncoding s) = ParseComplete rws"
  shows "length (geocodedRows (snd (handleProcess read_file gw s))) \<le> length rws
    \<and> (\<forall>i<length (geocodedRows (snd (handleProcess read_file gw s))).
         let out = geocodedRows (snd (handleProcess read_file gw s)) ! i
         in (\<exists>!st. st \<in> {status_success, status_failure, status_skipped} \<and> has_status st out)
          \<and> (has_status status_success out \<longrightarrow>
               (\<exists>x y. map_of out key_latitude = Some (VNumber x)
                  \<and> map_of out key_longitude = Some (VNumber y)))
          \<and> (has_status status_failure out \<or> has_status status_skipped out \<longrightarrow>
               (\<exists>m. map_of out key_error_message = Some (VString m)))
          \<and> (\<not> present key_latitude (rws ! i) \<and> \<not> present key_longitude (rws ! i) \<longrightarrow>
               (present key_latitude out \<and> present key_longitude out
                  \<longleftrightarrow> has_status status_success out)
               \<and> (present key_latitude out \<longleftrightarrow> present key_longitude out))
          \<and> (\<not> present key_error_message (rws ! i) \<longrightarrow>
               (present key_error_message out \<longleftrightarrow>
                  has_status status_failure out \<or> has_status status_skipped out)))
    \<and> (None \<notin> set (outcomes gw (addressColumns s) rws) \<longrightarrow>
         data (fst (handleProcess read_file gw s)) = geocodedRows (snd (handleProcess read_file gw s))
         \<and> length (data (fst (handleProcess read_file gw s))) = length rws)"
proof -
  let ?pushed = "geocodedRows (snd (handleProcess read_file gw s))"
  have le: "length ?pushed \<le> length rws"
  proof (cases "?pushed = []")
    case True
    then show ?thesis
      by simp
  next
    case False
    then have "length ?pushed - 1 < length ?pushed"
      by simp
    then have "length ?pushed - 1 < length rws"
      by (rule pushed_nth(1) [OF assms(1-3), where read_file = read_file and rws = rws and gw = gw,
          OF assms(4)])
    then show ?thesis
      by simp
  qed
  have rows: "let out = ?pushed ! i
         in (\<exists>!st. st \<in> {status_success, status_failure, status_skipped} \<and> has_status st out)
          \<and> (has_status status_success out \<longrightarrow>
               (\<exists>x y. map_of out key_latitude = Some (VNumber x)
                  \<and> map_of out key_longitude = Some (VNumber y)))
          \<and> (has_status status_failure out \<or> has_status status_skipped out \<longrightarrow>
               (\<exists>m. map_of out key_error_message = Some (VString m)))
          \<and> (\<not> present key_latitude (rws ! i) \<and> \<not> present key_longitude (rws ! i) \<longrightarrow>
               (present key_latitude out \<and> present key_longitude out
                  \<longleftrightarrow> has_status status_success out)
               \<and> (present key_latitude out \<longleftrightarrow> present key_longitude out))
          \<and> (\<not> present key_error_message (rws ! i) \<longrightarrow>
               (present key_error_message out \<longleftrightarrow>
                  has_status status_failure out \<or> has_status status_skipped out))"
    if i: "i < length ?pushed" for i
    unfolding Let_def
    by (rule outcome_row_status [OF pushed_nth(2) [OF assms(1-3), where read_file = read_file
          and rws = rws and gw = gw, OF assms(4) i]])
  have c: "None \<notin> set (outcomes gw (addressColumns s) rws) \<longrightarrow>
         data (fst (handleProcess read_file gw s)) = ?pushed
         \<and> length (data (fst (handleProcess read_file gw s))) = length rws"
    using handleProcess_answered_fields(2,8) [OF assms(1-3), where read_file = read_file
        and rws = rws and gw = gw, OF assms(4)]
    by simp
  from rows have "\<forall>i<length ?pushed. let out = ?pushed ! i
         in (\<exists>!st. st \<in> {status_success, status_failure, status_skipped} \<and> has_status st out)
          \<and> (has_status status_success out \<longrightarrow>
               (\<exists>x y. map_of out key_latitude = Some (VNumber x)
                  \<and> map_of out key_longitude = Some (VNumber y)))
          \<and> (has_status status_failure out \<or> has_status status_skipped out \<longrightarrow>
               (\<exists>m. map_of out key_error_message = Some (VString m)))
          \<and> (\<not> present key_latitude (rws ! i) \<and> \<not> present key_longitude (rws ! i) \<longrightarrow>
               (present key_latitude out \<and> present key_longitude out
                  \<longleftrightarrow> has_status status_success out)
               \<and> (present key_latitude out \<longleftrightarrow> present key_longitude out))
          \<and> (\<not> present key_error_message (rws ! i) \<longrightarrow>
               (present key_error_message out \<longleftrightarrow>
                  has_status status_failure out \<or> has_status status_skipped out))"
    by (intro allI impI)
  with le c show ?thesis
    by (intro conjI)
qed

theorem status_invariant_witness:
  "file' example_state = Some example_file \<and> addressColumns example_state \<noteq> []
   \<and> geocoderReady example_state
   \<and> example_reader example_file (inputEncoding example_state) = ParseComplete example_rows
   \<and> (0::nat) < length (geocodedRows (snd (handleProcess example_reader example_gateway example_state)))
   \<and> \<not> present key_latitude (example_rows ! 0) \<and> \<not> present key_longitude (example_rows ! 0)
   \<and> \<not> present key_error_message (example_rows ! 0)
   \<and> has_status status_success (geocodedRows (snd (handleProcess example_reader example_gateway example_state)) ! 0)
   \<and> present key_latitude (geocodedRows (snd (handleProcess example_reader example_gateway example_state)) ! 0)
   \<and> present key_longitude (geocodedRows (snd (handleProcess example_reader example_gateway example_state)) ! 0)
   \<and> \<not> present key_error_message (geocodedRows (snd (handleProcess example_reader example_gateway example_state)) ! 0)
   \<and> None \<notin> set (outcomes example_gateway (addressColumns example_state) example_rows)
   \<and> data (fst (handleProcess example_reader example_gateway example_state))
       = geocodedRows (snd (handleProcess example_reader example_gateway example_state))
   \<and> length (data (fst (handleProcess example_reader example_gateway example_state))) = 3"
proof -
  let ?out = "geocodedRows (snd (handleProcess example_reader example_gateway example_state)) ! 0"
  have l: "(0::nat) < length (geocodedRows (snd (handleProcess example_reader example_gateway example_state)))"
    by (simp add: example_run)
  have p: "\<not> present key_latitude (example_rows ! 0)" "\<not> present key_longitude (example_rows ! 0)"
    "\<not> present key_error_message (example_rows ! 0)"
    by (simp_all add: example_defs present_def key_latitude_def key_longitude_def
        key_error_message_def ascii_def)
  have st: "has_status status_success ?out"
    by (simp add: example_run has_status_success_row)
  have n: "None \<notin> set (outcomes example_gateway (addressColumns example_state) example_rows)"
    by (simp add: example_started(4) example_outcomes)
  have len: "length example_rows = 3"
    by (simp add: example_rows_def)
  note t = status_invariant [where s = example_state and f = example_file
      and read_file = example_reader and rws = example_rows and gw = example_gateway,
      OF example_started(1,2,3,5)]
  from t l have r:
    "\<not> present key_latitude (example_rows ! 0) \<and> \<not> present key_longitude (example_rows ! 0) \<longrightarrow>
       (present key_latitude ?out \<and> present key_longitude ?out \<longleftrightarrow> has_status status_success ?out)
       \<and> (present key_latitude ?out \<longleftrightarrow> present key_longitude ?out)"
    "\<not> present key_error_message (example_rows ! 0) \<longrightarrow>
       (present key_error_message ?out \<longleftrightarrow>
          has_status status_failure ?out \<or> has_status status_skipped ?out)"
    "\<exists>!st. st \<in> {status_success, status_failure, status_skipped} \<and> has_status st ?out"
    unfolding Let_def by blast+
  from r(1) p st have lat: "present key_latitude ?out" "present key_longitude ?out"
    by blast+
  from r(3) st statuses_distinct have "\<not> has_status status_failure ?out" "\<not> has_status status_skipped ?out"
    by auto
  with r(2) p have msg: "\<not> present key_error_message ?out"
    by blast
  from t n have d: "data (fst (handleProcess example_reader example_gateway example_state))
       = geocodedRows (snd (handleProcess example_reader example_gateway example_state))"
    "length (data (fst (handleProcess example_reader example_gateway example_state)))
       = length example_rows"
    by blast+
  have d3: "length (data (fst (handleProcess example_reader example_gateway example_state))) = 3"
    using d(2) by (simp only: len)
  show ?thesis
    using example_started(1,2,3,5) l p st lat msg n d(1) d3 by (intro conjI)
qed

section \<open>The export\<close>

lemma map_of_filter_keys:
  "map_of (filter (\<lambda>(k, v). k \<noteq> a \<and> k \<noteq> b) row) k
     = (if k = a \<or> k = b then None else map_of row k)"
  by (induction row) auto

lemma map_of_combined_row:
  "map_of (combined_row toString row) k =
     (if k = key_lat_lon then
        Some (VString (case (map_of row key_latitude, map_of row key_longitude) of
                         (Some (VNumber x), Some (VNumber y)) \<Rightarrow> toString x @ ascii '','' @ toString y
                       | _ \<Rightarrow> []))
      else if k = key_latitude \<or> k = key_longitude then None
      else map_of row k)"
  by (simp add: combined_row_def Let_def update_conv' map_of_filter_keys)

lemma distinct_combined_row:
  assumes "distinct (Object_keys row)"
  shows "distinct (Object_keys (combined_row toString row))"
proof -
  have "distinct (map fst (filter (\<lambda>(k, v). k \<noteq> key_latitude \<and> k \<noteq> key_longitude) row))"
    using assms by (simp add: Object_keys_def distinct_map_filter)
  then show ?thesis
    by (simp add: Object_keys_def combined_row_def Let_def distinct_update)
qed

text \<open>
  Claim C6. In separate mode \<^verbatim>\<open>buildExportRows\<close> returns the stored rows as they are. In
  combined mode it returns one row for each stored row, without \<^verbatim>\<open>latitude\<close> and
  \<^verbatim>\<open>longitude\<close> and with one field \<^verbatim>\<open>lat_lon\<close>: the two numbers printed with a comma
  between them when both coordinates are numbers, the empty string when either is absent;
  every other field is kept. A download leaves the stored rows as they are; when there are
  rows to export it changes nothing in the state at all.
\<close>

theorem export_rows:
  "(coordinateFormat s = Separate \<longrightarrow> buildExportRows toString s = data s)
   \<and> (coordinateFormat s = Combined \<longrightarrow>
        length (buildExportRows toString s) = length (data s)
        \<and> (\<forall>i<length (data s).
              \<not> present key_latitude (buildExportRows toString s ! i)
              \<and> \<not> present key_longitude (buildExportRows toString s ! i)
              \<and> (\<forall>x y. map_of (data s ! i) key_latitude = Some (VNumber x)
                      \<and> map_of (data s ! i) key_longitude = Some (VNumber y) \<longrightarrow>
                    map_of (buildExportRows toString s ! i) key_lat_lon
                      = Some (VString (toString x @ ascii '','' @ toString y)))
              \<and> (\<not> present key_latitude (data s ! i) \<or> \<not> present key_longitude (data s ! i) \<longrightarrow>
                    map_of (buildExportRows toString s ! i) key_lat_lon = Some (VString []))
              \<and> (\<forall>k. k \<notin> {key_latitude, key_longitude, key_lat_lon} \<longrightarrow>
                    map_of (buildExportRows toString s ! i) k = map_of (data s ! i) k)
              \<and> (distinct (Object_keys (data s ! i)) \<longrightarrow>
                    distinct (Object_keys (buildExportRows toString s ! i)))))
   \<and> data (fst (handleDownload toString s)) = data s
   \<and> (data s \<noteq> [] \<longrightarrow> fst (handleDownload toString s) = s
        \<and> snd (handleDownload toString s) = Some (buildExportRows toString s))"
  using keys_distinct
  by (auto simp add: buildExportRows_def handleDownload_def present_def map_of_combined_row
      distinct_combined_row split: option.splits js_value.splits)

theorem export_rows_witness:
  "coordinateFormat (example_state\<lparr>data := example_data, coordinateFormat := Combined\<rparr>) = Combined
   \<and> map_of (data (example_state\<lparr>data := example_data, coordinateFormat := Combined\<rparr>) ! 0)
        key_latitude = Some (VNumber 35)
   \<and> map_of (data (example_state\<lparr>data := example_data, coordinateFormat := Combined\<rparr>) ! 0)
        key_longitude = Some (VNumber 139)
   \<and> map_of (buildExportRows example_toString
          (example_state\<lparr>data := example_data, coordinateFormat := Combined\<rparr>) ! 0) key_lat_lon
        = Some (VString (ascii ''35,139''))
   \<and> \<not> present key_latitude
          (data (example_state\<lparr>data := example_data, coordinateFormat := Combined\<rparr>) ! 1)
   \<and> map_of (buildExportRows example_toString
          (example_state\<lparr>data := example_data, coordinateFormat := Combined\<rparr>) ! 1) key_lat_lon
        = Some (VString [])
   \<and> coordinateFormat (example_state\<lparr>data := example_data\<rparr>) = Separate
   \<and> buildExportRows example_toString (example_state\<lparr>data := example_data\<rparr>) = example_data
   \<and> data (example_state\<lparr>data := example_data\<rparr>) \<noteq> []
   \<and> fst (handleDownload example_toString (example_state\<lparr>data := example_data\<rparr>))
        = example_state\<lparr>data := example_data\<rparr>"
proof -
  let ?s = "example_state\<lparr>data := example_data, coordinateFormat := Combined\<rparr>"
  have c: "coordinateFormat ?s = Combined" "coordinateFormat (example_state\<lparr>data := example_data\<rparr>) = Separate"
    "data ?s = example_data" "data (example_state\<lparr>data := example_data\<rparr>) = example_data"
    by (simp_all add: example_defs)
  have l: "0 < length example_data" "1 < length example_data"
    by (simp_all add: example_data_def)
  have d: "map_of (example_data ! 0) key_latitude = Some (VNumber 35)"
    "map_of (example_data ! 0) key_longitude = Some (VNumber 139)"
    "\<not> present key_latitude (example_data ! 1)"
    using keys_distinct
    by (simp_all add: example_data_def map_of_success_row map_of_failure_row present_def ascii_def
        key_latitude_def key_longitude_def key_geocoding_status_def key_error_message_def)
  have e: "example_toString 35 @ ascii '','' @ example_toString 139 = ascii ''35,139''"
    by (simp add: example_toString_def ascii_def)
  note t1 = export_rows [of ?s example_toString]
  note t2 = export_rows [of "example_state\<lparr>data := example_data\<rparr>" example_toString]
  from t1 c l d have "map_of (buildExportRows example_toString ?s ! 0) key_lat_lon
      = Some (VString (example_toString 35 @ ascii '','' @ example_toString 139))"
    by simp
  moreover from t1 c l d have "map_of (buildExportRows example_toString ?s ! 1) key_lat_lon
      = Some (VString [])"
    by simp
  moreover from t2 c have
    "buildExportRows example_toString (example_state\<lparr>data := example_data\<rparr>) = example_data"
    by simp
  moreover from t2 c l have
    "fst (handleDownload example_toString (example_state\<lparr>data := example_data\<rparr>))
       = example_state\<lparr>data := example_data\<rparr>"
    by auto
  moreover have "data (example_state\<lparr>data := example_data\<rparr>) \<noteq> []"
    using c l by auto
  ultimately show ?thesis
    using c d e by simp
qed

section \<open>The selection of address columns\<close>

text \<open>
  Claim C8, as stated, fails for a new file: \<^verbatim>\<open>handleFileChange\<close> seeds the selection only
  when it is empty (the guard of line 81), so a selection made for an earlier file is kept
  when the next file is loaded.
\<close>

theorem selection_seeding_counterexample:
  "columns (handleFileChange example_reader (Some example_file)
      (example_state\<lparr>addressColumns := [ascii ''old'']\<rparr>)) = [ascii ''addr'']
   \<and> addressColumns (handleFileChange example_reader (Some example_file)
      (example_state\<lparr>addressColumns := [ascii ''old'']\<rparr>)) = [ascii ''old'']
   \<and> ascii ''old'' \<noteq> ascii ''addr''"
  by (simp add: handleFileChange_def Let_def Object_keys_def example_defs ascii_def)

text \<open>
  Claim C8, amended. Whenever the encoding is changed and columns are inferred again, the
  selection becomes exactly the first inferred column name. When a file is loaded and its
  columns are inferred, the selection becomes exactly the first inferred column name if it
  was empty, and is kept as it was otherwise.
\<close>

theorem selection_seeding:
  assumes "read_file f enc = ParseComplete rws" and "rws \<noteq> []"
    and "cols = Object_keys (rws ! 0)" and "cols \<noteq> []"
  shows "(inputEncoding s = enc \<longrightarrow>
            columns (handleFileChange read_file (Some f) s) = cols
            \<and> addressColumns (handleFileChange read_file (Some f) s)
                = (if addressColumns s = [] then [cols ! 0] else addressColumns s))
    \<and> (file' s = Some f \<longrightarrow>
            columns (handleEncodingChange read_file enc s) = cols
            \<and> addressColumns (handleEncodingChange read_file enc s) = [cols ! 0]
            \<and> inputEncoding (handleEncodingChange read_file enc s) = enc)"
  using assms by (auto simp add: handleFileChange_def handleEncodingChange_def Let_def)

theorem selection_seeding_witness:
  "example_reader example_file (ascii ''Shift_JIS'') = ParseComplete example_rows
   \<and> example_rows \<noteq> [] \<and> Object_keys (example_rows ! 0) = [ascii ''addr'']
   \<and> file' (example_state\<lparr>addressColumns := [ascii ''old'']\<rparr>) = Some example_file
   \<and> addressColumns (handleEncodingChange example_reader (ascii ''Shift_JIS'')
        (example_state\<lparr>addressColumns := [ascii ''old'']\<rparr>)) = [ascii ''addr'']
   \<and> inputEncoding (example_state\<lparr>addressColumns := []\<rparr>) = ascii ''UTF-8''
   \<and> addressColumns (handleFileChange example_reader (Some example_file)
        (example_state\<lparr>addressColumns := []\<rparr>)) = [ascii ''addr'']"
proof -
  have h: "example_reader example_file enc = ParseComplete example_rows" "example_rows \<noteq> []"
    "[ascii ''addr''] = Object_keys (example_rows ! 0)" "[ascii ''addr''] \<noteq> []" for enc
    by (simp_all add: example_defs Object_keys_def)
  have s: "file' (example_state\<lparr>addressColumns := [ascii ''old'']\<rparr>) = Some example_file"
    "inputEncoding (example_state\<lparr>addressColumns := []\<rparr>) = ascii ''UTF-8''"
    by (simp_all add: example_defs)
  note t1 = selection_seeding [where read_file = example_reader and f = example_file
      and enc = "ascii ''Shift_JIS''" and rws = example_rows and cols = "[ascii ''addr'']"
      and s = "example_state\<lparr>addressColumns := [ascii ''old'']\<rparr>", OF h]
  note t2 = selection_seeding [where read_file = example_reader and f = example_file
      and enc = "ascii ''UTF-8''" and rws = example_rows and cols = "[ascii ''addr'']"
      and s = "example_state\<lparr>addressColumns := []\<rparr>", OF h]
  show ?thesis
    using h(1) [of "ascii ''Shift_JIS''"] h(2) h(3) [symmetric] s t1 t2 by simp
qed


section \<open>A run that stops early\<close>

text \<open>
  The loop stops at the first row whose call throws or is never answered: the rows before
  it are pushed, and the loop is left by the exception, or never.
\<close>

lemma row_loop_stops:
  assumes "k < length rws" and "outcomes gw cols rws ! k = None"
    and "None \<notin> set (take k (outcomes gw cols rws))"
  shows "map Some (geocodedRows (run_of (row_loop gw cols rws 0 start_run)))
      = take k (outcomes gw cols rws)"
    "reported (run_of (row_loop gw cols rws 0 start_run))
      = map (\<lambda>j. progress_value (Suc j) (length rws)) [0..<k]"
    "(\<exists>reason r. gw k (buildAddress cols (rws ! k)) = Throws reason
        \<and> row_loop gw cols rws 0 start_run = Thrown reason r)
     \<or> (\<exists>r. gw k (buildAddress cols (rws ! k)) = NoAnswer
        \<and> row_loop gw cols rws 0 start_run = Awaiting r)"
proof -
  from row_loop_start [of rws gw cols]
  obtain k' where k': "k' \<le> length rws"
    "map Some (geocodedRows (run_of (row_loop gw cols rws 0 start_run))) = take k' (outcomes gw cols rws)"
    "reported (run_of (row_loop gw cols rws 0 start_run))
         = map (\<lambda>j. progress_value (Suc j) (length rws)) [0..<k']"
    "(case row_loop gw cols rws 0 start_run of
           Normal r' \<Rightarrow> k' = length rws
         | Thrown reason r' \<Rightarrow> k' < length rws \<and> outcomes gw cols rws ! k' = None
             \<and> gw k' (buildAddress cols (rws ! k')) = Throws reason
         | Awaiting r' \<Rightarrow> k' < length rws \<and> outcomes gw cols rws ! k' = None
             \<and> gw k' (buildAddress cols (rws ! k')) = NoAnswer)"
    by blast
  have le: "k' \<le> k"
  proof (rule ccontr)
    assume "\<not> k' \<le> k"
    then have "k < k'"
      by simp
    then have "take k' (outcomes gw cols rws) ! k = None"
      using assms(1,2) by simp
    then have "map Some (geocodedRows (run_of (row_loop gw cols rws 0 start_run))) ! k = None"
      by (simp only: k'(2))
    moreover have "k < length (geocodedRows (run_of (row_loop gw cols rws 0 start_run)))"
      using \<open>k < k'\<close> k'(1) by (metis k'(2) length_map length_outcomes length_take min.absorb2)
    ultimately show False
      by simp
  qed
  have stop: "k' < length rws \<Longrightarrow> outcomes gw cols rws ! k' = None \<Longrightarrow> k' = k"
  proof (rule ccontr)
    assume a: "k' < length rws" "outcomes gw cols rws ! k' = None" "k' \<noteq> k"
    with le have "k' < k"
      by simp
    then have "take k (outcomes gw cols rws) ! k' = None"
      using a(2) by simp
    moreover have "k' < length (take k (outcomes gw cols rws))"
      using \<open>k' < k\<close> assms(1) by (simp add: length_outcomes)
    ultimately have "None \<in> set (take k (outcomes gw cols rws))"
      by (metis nth_mem)
    with assms(3) show False
      by simp
  qed
  have eq: "k' = k"
    using k'(4) stop le assms(1) by (cases "row_loop gw cols rws 0 start_run") auto
  show "map Some (geocodedRows (run_of (row_loop gw cols rws 0 start_run)))
      = take k (outcomes gw cols rws)"
    "reported (run_of (row_loop gw cols rws 0 start_run))
      = map (\<lambda>j. progress_value (Suc j) (length rws)) [0..<k]"
    using k'(2,3) by (simp_all only: eq)
  show "(\<exists>reason r. gw k (buildAddress cols (rws ! k)) = Throws reason
        \<and> row_loop gw cols rws 0 start_run = Thrown reason r)
     \<or> (\<exists>r. gw k (buildAddress cols (rws ! k)) = NoAnswer
        \<and> row_loop gw cols rws 0 start_run = Awaiting r)"
    using k'(4) assms(1) unfolding eq by (cases "row_loop gw cols rws 0 start_run") auto
qed

text \<open>A started run in which a call throws: what the rows before it gave is dropped.\<close>

lemma handleProcess_thrown:
  assumes "file' s = Some f" and "addressColumns s \<noteq> []" and "geocoderReady s"
    and "read_file f (inputEncoding s) = ParseComplete rws"
    and "k < length rws" and "None \<notin> set (take k (outcomes gw (addressColumns s) rws))"
    and "buildAddress (addressColumns s) (rws ! k) \<noteq> []"
    and "gw k (buildAddress (addressColumns s) (rws ! k)) = Throws reason"
  shows "fst (handleProcess read_file gw s)
      = s\<lparr>loading := False, error := msg_process_error @ reason,
          progress := last_progress 0 (map (\<lambda>j. progress_value (Suc j) (length rws)) [0..<k])\<rparr>"
    "map Some (geocodedRows (snd (handleProcess read_file gw s)))
      = take k (outcomes gw (addressColumns s) rws)"
    "reported (snd (handleProcess read_file gw s))
      = map (\<lambda>j. progress_value (Suc j) (length rws)) [0..<k]"
proof -
  have none: "outcomes gw (addressColumns s) rws ! k = None"
    using assms(5,7,8) by (simp add: outcomes_nth outcome_row_def)
  note st = row_loop_stops [OF assms(5) none assms(6)]
  from st(3) assms(8) obtain r where r: "row_loop gw (addressColumns s) rws 0 start_run = Thrown reason r"
    by auto
  have ro: "run_of (row_loop gw (addressColumns s) rws 0 start_run) = r"
    by (simp add: r run_of_def)
  show "fst (handleProcess read_file gw s)
      = s\<lparr>loading := False, error := msg_process_error @ reason,
          progress := last_progress 0 (map (\<lambda>j. progress_value (Suc j) (length rws)) [0..<k])\<rparr>"
    using st(2) assms(1-4)
    by (simp add: handleProcess_started [where f = f and rws = rws] r run_of_def)
  show "map Some (geocodedRows (snd (handleProcess read_file gw s)))
      = take k (outcomes gw (addressColumns s) rws)"
    "reported (snd (handleProcess read_file gw s))
      = map (\<lambda>j. progress_value (Suc j) (length rws)) [0..<k]"
    using st(1,2) assms(1-4)
    by (simp_all add: handleProcess_run_of [where f = f and rws = rws])
qed

text \<open>A started run in which a call is never answered: the page waits, and stays loading.\<close>

lemma handleProcess_unanswered:
  assumes "file' s = Some f" and "addressColumns s \<noteq> []" and "geocoderReady s"
    and "read_file f (inputEncoding s) = ParseComplete rws"
    and "k < length rws" and "None \<notin> set (take k (outcomes gw (addressColumns s) rws))"
    and "buildAddress (addressColumns s) (rws ! k) \<noteq> []"
    and "gw k (buildAddress (addressColumns s) (rws ! k)) = NoAnswer"
  shows "fst (handleProcess read_file gw s)
      = s\<lparr>loading := True, error := [],
          progress := last_progress 0 (map (\<lambda>j. progress_value (Suc j) (length rws)) [0..<k])\<rparr>"
proof -
  have none: "outcomes gw (addressColumns s) rws ! k = None"
    using assms(5,7,8) by (simp add: outcomes_nth outcome_row_def)
  note st = row_loop_stops [OF assms(5) none assms(6)]
  from st(3) assms(8) obtain r where r: "row_loop gw (addressColumns s) rws 0 start_run = Awaiting r"
    by auto
  have ro: "run_of (row_loop gw (addressColumns s) rws 0 start_run) = r"
    by (simp add: r run_of_def)
  show ?thesis
    using st(2) assms(1-4)
    by (simp add: handleProcess_started [where f = f and rws = rws] r run_of_def)
qed

text \<open>The example file with the gateway that throws for its third row.\<close>

lemma throwing_outcomes:
  "outcomes throwing_gateway [ascii ''addr''] example_rows
     = [Some (success_row (example_rows ! 0) \<lparr>lat = 35, lng = 139\<rparr>),
        Some (skipped_row (example_rows ! 1)), None]"
  "buildAddress [ascii ''addr''] (example_rows ! 2) = ascii ''Nowhere''"
  "throwing_gateway 2 (ascii ''Nowhere'') = Throws (ascii ''boom'')"
  by (simp_all add: outcomes_def upt_rec_numeral example_defs outcome_row_def buildAddress_def
      get_property_def truthy_def String_def trim_def isWhiteSpace_def ascii_def)

lemma throwing_run:
  "fst (handleProcess example_reader throwing_gateway example_state)
     = example_state\<lparr>loading := False, error := msg_process_error @ ascii ''boom'',
         progress := last_progress 0 (map (\<lambda>j. progress_value (Suc j) 3) [0..<2])\<rparr>"
  "geocodedRows (snd (handleProcess example_reader throwing_gateway example_state))
     = [success_row (example_rows ! 0) \<lparr>lat = 35, lng = 139\<rparr>, skipped_row (example_rows ! 1)]"
  "reported (snd (handleProcess example_reader throwing_gateway example_state))
     = map (\<lambda>j. progress_value (Suc j) 3) [0..<2]"
proof -
  have l: "2 < length example_rows" "length example_rows = 3"
    by (simp_all add: example_rows_def)
  have n: "None \<notin> set (take 2 (outcomes throwing_gateway (addressColumns example_state) example_rows))"
    by (simp add: example_started(4) throwing_outcomes(1))
  have a: "buildAddress (addressColumns example_state) (example_rows ! 2) \<noteq> []"
    by (simp only: example_started(4) throwing_outcomes(2)) (simp add: ascii_def)
  have g: "throwing_gateway 2 (buildAddress (addressColumns example_state) (example_rows ! 2))
      = Throws (ascii ''boom'')"
    by (simp only: example_started(4) throwing_outcomes(2,3))
  note t = handleProcess_thrown [where s = example_state and f = example_file
      and read_file = example_reader and rws = example_rows and gw = throwing_gateway and k = 2,
      OF example_started(1,2,3,5) l(1) n a g]
  show "fst (handleProcess example_reader throwing_gateway example_state)
     = example_state\<lparr>loading := False, error := msg_process_error @ ascii ''boom'',
         progress := last_progress 0 (map (\<lambda>j. progress_value (Suc j) 3) [0..<2])\<rparr>"
    "reported (snd (handleProcess example_reader throwing_gateway example_state))
     = map (\<lambda>j. progress_value (Suc j) 3) [0..<2]"
    using t(1,3) by (simp_all only: l(2))
  have "map Some (geocodedRows (snd (handleProcess example_reader throwing_gateway example_state)))
      = map Some [success_row (example_rows ! 0) \<lparr>lat = 35, lng = 139\<rparr>, skipped_row (example_rows ! 1)]"
    using t(2) by (simp add: example_started(4) throwing_outcomes(1))
  then show "geocodedRows (snd (handleProcess example_reader throwing_gateway example_state))
     = [success_row (example_rows ! 0) \<lparr>lat = 35, lng = 139\<rparr>, skipped_row (example_rows ! 1)]"
    by (rule map_Some_eq)
qed


section \<open>The addresses geocoded\<close>

text \<open>The addresses a loop that ends normally has passed to \<open>geocodeAddress\<close>.\<close>

lemma row_loop_calls:
  assumes "i \<le> length rws" and "row_loop gw cols rws i r = Normal r'"
  shows "calls r' = calls r
     @ filter (\<lambda>a. a \<noteq> []) (map (\<lambda>j. buildAddress cols (rws ! j)) [i..<length rws])"
  using assms
proof (induction gw cols rws i r rule: row_loop.induct)
  case (1 gw cols rws i r)
  show ?case
  proof (cases "i < length rws")
    case False
    with "1.prems"(1) have "i = length rws"
      by simp
    moreover have "row_loop gw cols rws i r = Normal r"
      using False by (subst row_loop.simps) simp
    ultimately show ?thesis
      using "1.prems"(2) by simp
  next
    case True
    show ?thesis
    proof (cases "outcome_row gw cols i (rws ! i)")
      case None
      from process_row_None [OF None, of r] have "row_loop gw cols rws i r \<noteq> Normal r'"
        using True by (subst row_loop.simps) auto
      with "1.prems"(2) show ?thesis
        by simp
    next
      case (Some out)
      let ?r1 = "r\<lparr>geocodedRows := geocodedRows r @ [out],
               reported := reported r @ [progress_value (Suc i) (length rws)],
               calls := calls r @ (if buildAddress cols (rws ! i) = [] then []
                                  else [buildAddress cols (rws ! i)])\<rparr>"
      have p: "process_row gw cols rws i r = Normal ?r1"
        using Some by (rule process_row_Some)
      have step: "row_loop gw cols rws i r = row_loop gw cols rws (Suc i) ?r1"
        using True p by (subst row_loop.simps) simp
      have "calls r' = calls ?r1
         @ filter (\<lambda>a. a \<noteq> []) (map (\<lambda>j. buildAddress cols (rws ! j)) [Suc i..<length rws])"
        using "1.IH" [OF True p] True "1.prems"(2) step by simp
      moreover have "[i..<length rws] = i # [Suc i..<length rws]"
        using True by (simp add: upt_conv_Cons)
      ultimately show ?thesis
        by simp
    qed
  qed
qed

lemma handleProcess_calls:
  assumes "file' s = Some f" and "addressColumns s \<noteq> []" and "geocoderReady s"
    and "read_file f (inputEncoding s) = ParseComplete rws"
    and "None \<notin> set (outcomes gw (addressColumns s) rws)"
  shows "calls (snd (handleProcess read_file gw s))
     = filter (\<lambda>a. a \<noteq> []) (map (\<lambda>j. buildAddress (addressColumns s) (rws ! j)) [0..<length rws])"
proof -
  from row_loop_answered [OF assms(5)]
  obtain r where r: "row_loop gw (addressColumns s) rws 0 start_run = Normal r"
    by blast
  have "calls r = calls (start_run :: 'a run)
     @ filter (\<lambda>a. a \<noteq> []) (map (\<lambda>j. buildAddress (addressColumns s) (rws ! j)) [0..<length rws])"
    using r by (intro row_loop_calls) simp_all
  then show ?thesis
    using assms(1-4) r
    by (simp add: handleProcess_started [where f = f and rws = rws] start_run_def)
qed

text \<open>
  The address the code builds is the one the spec words, unless a selected column that the
  row has no field for has the name of a member of \<^verbatim>\<open>Object.prototype\<close>.
\<close>

lemma join_empty: "join [] xs = concat xs"
  by (induction "[] :: js_string" xs rule: join.induct) simp_all

lemma trim_String_own:
  "(if truthy (Own v) then trim (String (Own v)) else []) = trim (String (Own v))"
  by (cases v) (simp_all add: truthy_def String_def trim_Nil)

lemma buildAddress_spec:
  assumes "\<forall>col\<in>set cols. map_of row col = None \<longrightarrow> Object_prototype col = None"
  shows "buildAddress cols row = spec_address cols row"
proof -
  have "filter (\<lambda>part. length part > 0)
          (map (\<lambda>col. let v = get_property row col in if truthy v then trim (String v) else []) cols)
      = filter (\<lambda>v. v \<noteq> []) (map trim (spec_selected_values cols row))"
    using assms
  proof (induction cols)
    case Nil
    show ?case
      by (simp add: spec_selected_values_def)
  next
    case (Cons col cols)
    then have IH: "filter (\<lambda>part. length part > 0)
          (map (\<lambda>col. let v = get_property row col in if truthy v then trim (String v) else []) cols)
      = filter (\<lambda>v. v \<noteq> []) (map trim (spec_selected_values cols row))"
      by simp
    have sv: "spec_selected_values (col # cols) row
        = (case map_of row col of None \<Rightarrow> [] | Some v \<Rightarrow> [String (Own v)]) @ spec_selected_values cols row"
      by (simp add: spec_selected_values_def)
    show ?case
    proof (cases "map_of row col")
      case None
      with Cons.prems have "Object_prototype col = None"
        by simp
      with None have "get_property row col = Undefined"
        by (simp add: get_property_def)
      then show ?thesis
        using IH None by (simp add: sv truthy_def)
    next
      case (Some v)
      then have "get_property row col = Own v"
        by (simp add: get_property_def)
      then show ?thesis
        using IH Some by (simp add: sv trim_String_own del: length_greater_0_conv)
    qed
  qed
  then show ?thesis
    by (simp add: buildAddress_def spec_address_def join_empty Let_def)
qed


section \<open>The example files, run\<close>

text \<open>The file with the short line, on the page that selects the column \<^verbatim>\<open>constructor\<close>.\<close>

lemma short_line_addresses:
  "get_property (example_rows_short_line ! 1) (ascii ''constructor'')
     = Inherited (ascii ''function Object() { [native code] }'')"
  "buildAddress [ascii ''constructor''] (example_rows_short_line ! 0) = ascii ''Acme''"
  "buildAddress [ascii ''constructor''] (example_rows_short_line ! 1)
     = ascii ''function Object() { [native code] }''"
  "spec_address [ascii ''constructor''] (example_rows_short_line ! 1) = []"
  by (simp_all add: example_rows_short_line_def buildAddress_def spec_address_def
      spec_selected_values_def get_property_def Object_prototype_def native_function_def
      truthy_def String_def trim_def isWhiteSpace_def ascii_def)

lemma short_line_outcomes:
  "outcomes example_gateway [ascii ''constructor''] example_rows_short_line
     = [Some (failure_row (example_rows_short_line ! 0)),
        Some (failure_row (example_rows_short_line ! 1))]"
proof -
  have l: "[0..<length example_rows_short_line] = [0, 1]"
    by (simp add: example_rows_short_line_def upt_rec_numeral)
  have "ascii ''Acme'' \<noteq> []" "ascii ''function Object() { [native code] }'' \<noteq> []"
    "example_gateway 0 (ascii ''Acme'') = ErrorCallback"
    "example_gateway 1 (ascii ''function Object() { [native code] }'') = ErrorCallback"
    by (simp_all add: example_gateway_def ascii_def)
  moreover have "buildAddress [ascii ''constructor''] (example_rows_short_line ! Suc 0)
      = ascii ''function Object() { [native code] }''"
    using short_line_addresses(3) by simp
  ultimately show ?thesis
    by (simp add: outcomes_def l outcome_row_def short_line_addresses(2))
qed

lemma short_line_started:
  "file' example_state_constructor = Some example_file"
  "addressColumns example_state_constructor \<noteq> []"
  "geocoderReady example_state_constructor"
  "addressColumns example_state_constructor = [ascii ''constructor'']"
  "(\<lambda>f enc. ParseComplete example_rows_short_line) example_file
      (inputEncoding example_state_constructor) = ParseComplete example_rows_short_line"
  by (simp_all add: example_state_constructor_def example_state_def)

lemma short_line_run:
  "data (fst (handleProcess (\<lambda>f enc. ParseComplete example_rows_short_line) example_gateway
       example_state_constructor))
     = [failure_row (example_rows_short_line ! 0), failure_row (example_rows_short_line ! 1)]"
  "calls (snd (handleProcess (\<lambda>f enc. ParseComplete example_rows_short_line) example_gateway
       example_state_constructor))
     = [ascii ''Acme'', ascii ''function Object() { [native code] }'']"
proof -
  have n: "None \<notin> set (outcomes example_gateway (addressColumns example_state_constructor)
      example_rows_short_line)"
    by (simp add: short_line_started(4) short_line_outcomes)
  note a = handleProcess_answered [where s = example_state_constructor and f = example_file
      and read_file = "\<lambda>f enc. ParseComplete example_rows_short_line"
      and rws = example_rows_short_line and gw = example_gateway,
      OF short_line_started(1,2,3,5) n]
  then obtain r where r: "handleProcess (\<lambda>f enc. ParseComplete example_rows_short_line)
        example_gateway example_state_constructor
      = (example_state_constructor\<lparr>loading := False, error := [], success := True,
           data := geocodedRows r, progress := last_progress 0 (reported r)\<rparr>, r)"
    "map Some (geocodedRows r)
      = outcomes example_gateway (addressColumns example_state_constructor) example_rows_short_line"
    by blast
  have "map Some (geocodedRows r)
      = map Some [failure_row (example_rows_short_line ! 0), failure_row (example_rows_short_line ! 1)]"
    using r(2) by (simp add: short_line_started(4) short_line_outcomes)
  then have "geocodedRows r
      = [failure_row (example_rows_short_line ! 0), failure_row (example_rows_short_line ! 1)]"
    by (rule map_Some_eq)
  then show "data (fst (handleProcess (\<lambda>f enc. ParseComplete example_rows_short_line) example_gateway
       example_state_constructor))
     = [failure_row (example_rows_short_line ! 0), failure_row (example_rows_short_line ! 1)]"
    by (simp add: r(1))
  have l: "[0..<length example_rows_short_line] = [0, 1]"
    by (simp add: example_rows_short_line_def upt_rec_numeral)
  have ne: "ascii ''Acme'' \<noteq> []" "ascii ''function Object() { [native code] }'' \<noteq> []"
    by (simp_all add: ascii_def)
  note c = handleProcess_calls [where s = example_state_constructor and f = example_file
      and read_file = "\<lambda>f enc. ParseComplete example_rows_short_line"
      and rws = example_rows_short_line and gw = example_gateway,
      OF short_line_started(1,2,3,5) n]
  show "calls (snd (handleProcess (\<lambda>f enc. ParseComplete example_rows_short_line) example_gateway
       example_state_constructor))
     = [ascii ''Acme'', ascii ''function Object() { [native code] }'']"
    unfolding c short_line_started(4) l using ne short_line_addresses(3)
    by (simp add: short_line_addresses(2))
qed



section \<open>A call of the gateway that throws\<close>

text \<open>
  Claim C9: the wrapper \<^verbatim>\<open>geocodeAddress\<close> never rejects, so that no exception from a gateway
  call escapes into the row loop. The code departs from it: the executor of the promise
  calls \<^verbatim>\<open>getLatLng\<close> outside any \<^verbatim>\<open>try\<close> (line 103), so a call that throws rejects the
  promise. With the gateway that throws for the address of the third row of the example
  file, the wrapper rejects with what was thrown, the iteration of that row is left by the
  exception, and so is the loop.
\<close>

theorem geocodeAddress_rejects_when_getLatLng_throws:
  "throwing_gateway 2 (ascii ''Nowhere'') = Throws (ascii ''boom'')
   \<and> geocodeAddress throwing_gateway 2 (ascii ''Nowhere'') = Rejected (ascii ''boom'')
   \<and> process_row throwing_gateway [ascii ''addr''] example_rows 2 start_run
       = Thrown (ascii ''boom'') (start_run\<lparr>calls := [ascii ''Nowhere'']\<rparr>)
   \<and> (\<exists>r. row_loop throwing_gateway [ascii ''addr''] example_rows 0 start_run
       = Thrown (ascii ''boom'') r)"
proof -
  have g: "geocodeAddress throwing_gateway 2 (ascii ''Nowhere'') = Rejected (ascii ''boom'')"
    by (simp add: geocodeAddress_def throwing_outcomes(3))
  have ne: "ascii ''Nowhere'' \<noteq> []"
    by (simp add: ascii_def)
  have p: "process_row throwing_gateway [ascii ''addr''] example_rows 2 start_run
       = Thrown (ascii ''boom'') (start_run\<lparr>calls := [ascii ''Nowhere'']\<rparr>)"
    using ne by (simp add: process_row_def throwing_outcomes(2) g start_run_def)
  have l: "2 < length example_rows"
    by (simp add: example_rows_def)
  have "(\<exists>reason r. throwing_gateway 2 (buildAddress [ascii ''addr''] (example_rows ! 2)) = Throws reason
        \<and> row_loop throwing_gateway [ascii ''addr''] example_rows 0 start_run = Thrown reason r)
     \<or> (\<exists>r. throwing_gateway 2 (buildAddress [ascii ''addr''] (example_rows ! 2)) = NoAnswer
        \<and> row_loop throwing_gateway [ascii ''addr''] example_rows 0 start_run = Awaiting r)"
    by (rule row_loop_stops(3) [OF l]) (simp_all add: throwing_outcomes(1))
  then have "\<exists>r. row_loop throwing_gateway [ascii ''addr''] example_rows 0 start_run
       = Thrown (ascii ''boom'') r"
    by (simp add: throwing_outcomes(2,3))
  with g p throwing_outcomes(3) show ?thesis
    by blast
qed

text \<open>
  Claim C1: the result has the length and the order of the input, and no row keeps a later
  row from being processed. The code departs from it on the same input, by the same
  defect: the exception of the third row reaches the \<^verbatim>\<open>catch\<close> of line 194, which only sets
  the error message. The two rows the loop had pushed are never stored: the file has three
  rows and the result none, the success flag is not set and the page shows the error.
\<close>

theorem throwing_call_drops_every_row:
  "length example_rows = 3
   \<and> geocodedRows (snd (handleProcess example_reader throwing_gateway example_state))
       = [success_row (example_rows ! 0) \<lparr>lat = 35, lng = 139\<rparr>, skipped_row (example_rows ! 1)]
   \<and> data (fst (handleProcess example_reader throwing_gateway example_state)) = []
   \<and> \<not> success (fst (handleProcess example_reader throwing_gateway example_state))
   \<and> \<not> loading (fst (handleProcess example_reader throwing_gateway example_state))
   \<and> error (fst (handleProcess example_reader throwing_gateway example_state))
       = msg_process_error @ ascii ''boom''"
  by (simp add: throwing_run(1,2)) (simp add: example_state_def example_rows_def)

section \<open>A selected column that a row has no field for\<close>

text \<open>
  Claim C3: the address is made of the values of the selected columns, trimmed, the empty
  ones dropped, joined with no separator; a record whose address is empty is skipped and
  no gateway call is made for it. The code departs from it when a selected column has the
  name of a member of \<^verbatim>\<open>Object.prototype\<close> and a row has no field for it: the read
  \<^verbatim>\<open>row[col]\<close> of line 158 then yields the inherited member. In the file with the short line
  the second row has no value for the selected column \<^verbatim>\<open>constructor\<close>, so its address as the
  claim builds it is empty; the code builds the text of a function, passes it to the
  gateway, and the row fails where the claim has it skipped.
\<close>

theorem inherited_member_is_geocoded:
  "map_of (example_rows_short_line ! 1) (ascii ''constructor'') = None
   \<and> spec_address [ascii ''constructor''] (example_rows_short_line ! 1) = []
   \<and> buildAddress [ascii ''constructor''] (example_rows_short_line ! 1)
       = ascii ''function Object() { [native code] }''
   \<and> calls (snd (handleProcess (\<lambda>f enc. ParseComplete example_rows_short_line) example_gateway
         example_state_constructor))
       = [ascii ''Acme'', ascii ''function Object() { [native code] }'']
   \<and> has_status status_failure
       (data (fst (handleProcess (\<lambda>f enc. ParseComplete example_rows_short_line) example_gateway
         example_state_constructor)) ! 1)
   \<and> \<not> has_status status_skipped
       (data (fst (handleProcess (\<lambda>f enc. ParseComplete example_rows_short_line) example_gateway
         example_state_constructor)) ! 1)"
proof -
  have "map_of (example_rows_short_line ! 1) (ascii ''constructor'') = None"
    by (simp add: example_rows_short_line_def ascii_def)
  then show ?thesis
    using statuses_distinct short_line_addresses(3,4)
    by (simp add: short_line_run has_status_failure_row)
qed


section \<open>The messages of a row\<close>

text \<open>
  Claim C4, as stated, fails in two ways. The page writes its messages in Japanese (lines
  178 and 185), so the message of a skipped row is not the string \<^verbatim>\<open>address is empty\<close> and
  the message of a failed row is not \<^verbatim>\<open>no result found\<close>. And a call that errors by
  throwing is not treated like a call that resolves \<^verbatim>\<open>null\<close>: where the error callback for
  the third row of the example file gives a failed row, the throw for the same row gives no
  row at all, ends the run and leaves the result empty.
\<close>

theorem error_messages_counterexample:
  "map_of (data (fst (handleProcess example_reader example_gateway example_state)) ! 1)
       key_error_message = Some (VString msg_address_empty)
   \<and> msg_address_empty \<noteq> ascii ''address is empty''
   \<and> map_of (data (fst (handleProcess example_reader example_gateway example_state)) ! 2)
       key_error_message = Some (VString msg_no_result)
   \<and> msg_no_result \<noteq> ascii ''no result found''
   \<and> example_gateway 2 (buildAddress [ascii ''addr''] (example_rows ! 2)) = ErrorCallback
   \<and> data (fst (handleProcess example_reader example_gateway example_state)) ! 2
       = failure_row (example_rows ! 2)
   \<and> throwing_gateway 2 (buildAddress [ascii ''addr''] (example_rows ! 2)) = Throws (ascii ''boom'')
   \<and> length (geocodedRows (snd (handleProcess example_reader throwing_gateway example_state))) = 2
   \<and> data (fst (handleProcess example_reader throwing_gateway example_state)) = []
   \<and> error (fst (handleProcess example_reader throwing_gateway example_state))
       = msg_process_error @ ascii ''boom''"
proof -
  have "msg_address_empty \<noteq> ascii ''address is empty''" "msg_no_result \<noteq> ascii ''no result found''"
    by (simp_all add: msg_address_empty_def msg_no_result_def ascii_def)
  moreover have "example_gateway 2 (ascii ''Nowhere'') = ErrorCallback"
    by (simp add: example_gateway_def ascii_def)
  moreover have "data example_state = []"
    by (simp add: example_state_def)
  ultimately show ?thesis
    by (simp add: example_run(1) throwing_run(1,2) throwing_outcomes(2,3)
        map_of_skipped_row map_of_failure_row)
qed

text \<open>
  Claim C4, amended. A row whose address is empty is skipped with the message of line 185
  (\<open>msg_address_empty\<close>, Japanese for "the address is empty"); a row whose call resolves
  \<^verbatim>\<open>null\<close> fails with the message of line 178 (\<open>msg_no_result\<close>, Japanese for "no result
  can be found"); the gateway's error callback and a gateway that is not defined both
  resolve \<^verbatim>\<open>null\<close> and give the same failed row. This holds of every row the loop pushes,
  and these are the rows of the result, one for each record, when every call is answered.
\<close>

theorem error_messages:
  assumes "file' s = Some f" and "addressColumns s \<noteq> []" and "geocoderReady s"
    and "read_file f (inputEncoding s) = ParseComplete rws"
  shows "length (geocodedRows (snd (handleProcess read_file gw s))) \<le> length rws
    \<and> (\<forall>i<length (geocodedRows (snd (handleProcess read_file gw s))).
         let a = buildAddress (addressColumns s) (rws ! i);
             out = geocodedRows (snd (handleProcess read_file gw s)) ! i
         in (a = [] \<longrightarrow> has_status status_skipped out
                \<and> map_of out key_error_message = Some (VString msg_address_empty))
          \<and> (a \<noteq> [] \<and> geocodeAddress gw i a = Resolved None \<longrightarrow> has_status status_failure out
                \<and> map_of out key_error_message = Some (VString msg_no_result))
          \<and> (a \<noteq> [] \<and> (gw i a = ErrorCallback \<or> gw i a = NotDefined) \<longrightarrow>
                geocodeAddress gw i a = Resolved None \<and> out = failure_row (rws ! i)))
    \<and> (None \<notin> set (outcomes gw (addressColumns s) rws) \<longrightarrow>
            data (fst (handleProcess read_file gw s)) = geocodedRows (snd (handleProcess read_file gw s))
            \<and> length (data (fst (handleProcess read_file gw s))) = length rws)"
proof -
  let ?pushed = "geocodedRows (snd (handleProcess read_file gw s))"
  have le: "length ?pushed \<le> length rws"
  proof (cases "?pushed = []")
    case True
    then show ?thesis
      by simp
  next
    case False
    then have "length ?pushed - 1 < length ?pushed"
      by simp
    then have "length ?pushed - 1 < length rws"
      by (rule pushed_nth(1) [OF assms(1-3), where read_file = read_file and rws = rws and gw = gw,
          OF assms(4)])
    then show ?thesis
      by simp
  qed
  have rows: "let a = buildAddress (addressColumns s) (rws ! i); out = ?pushed ! i
         in (a = [] \<longrightarrow> has_status status_skipped out
                \<and> map_of out key_error_message = Some (VString msg_address_empty))
          \<and> (a \<noteq> [] \<and> geocodeAddress gw i a = Resolved None \<longrightarrow> has_status status_failure out
                \<and> map_of out key_error_message = Some (VString msg_no_result))
          \<and> (a \<noteq> [] \<and> (gw i a = ErrorCallback \<or> gw i a = NotDefined) \<longrightarrow>
                geocodeAddress gw i a = Resolved None \<and> out = failure_row (rws ! i))"
    if i: "i < length ?pushed" for i
  proof -
    define out where "out = ?pushed ! i"
    define a where "a = buildAddress (addressColumns s) (rws ! i)"
    have "outcome_row gw (addressColumns s) i (rws ! i) = Some out"
      unfolding out_def
      by (rule pushed_nth(2) [OF assms(1-3), where read_file = read_file and rws = rws and gw = gw,
        OF assms(4) i])
    then have "(a = [] \<longrightarrow> has_status status_skipped out
                \<and> map_of out key_error_message = Some (VString msg_address_empty))
          \<and> (a \<noteq> [] \<and> geocodeAddress gw i a = Resolved None \<longrightarrow> has_status status_failure out
                \<and> map_of out key_error_message = Some (VString msg_no_result))
          \<and> (a \<noteq> [] \<and> (gw i a = ErrorCallback \<or> gw i a = NotDefined) \<longrightarrow>
                geocodeAddress gw i a = Resolved None \<and> out = failure_row (rws ! i))"
      using a_def
      by (auto simp add: outcome_row_def geocodeAddress_def Let_def has_status_skipped_row
          has_status_failure_row map_of_skipped_row map_of_failure_row
          split: getLatLng_outcome.splits)
    then show ?thesis
      unfolding Let_def out_def a_def .
  qed
  have c: "None \<notin> set (outcomes gw (addressColumns s) rws) \<longrightarrow>
         data (fst (handleProcess read_file gw s)) = ?pushed
         \<and> length (data (fst (handleProcess read_file gw s))) = length rws"
    using handleProcess_answered_fields(2,8) [OF assms(1-3), where read_file = read_file
        and rws = rws and gw = gw, OF assms(4)]
    by simp
  from rows have "\<forall>i<length ?pushed.
         let a = buildAddress (addressColumns s) (rws ! i); out = ?pushed ! i
         in (a = [] \<longrightarrow> has_status status_skipped out
                \<and> map_of out key_error_message = Some (VString msg_address_empty))
          \<and> (a \<noteq> [] \<and> geocodeAddress gw i a = Resolved None \<longrightarrow> has_status status_failure out
                \<and> map_of out key_error_message = Some (VString msg_no_result))
          \<and> (a \<noteq> [] \<and> (gw i a = ErrorCallback \<or> gw i a = NotDefined) \<longrightarrow>
                geocodeAddress gw i a = Resolved None \<and> out = failure_row (rws ! i))"
    by (intro allI impI)
  with le c show ?thesis
    by (intro conjI)
qed

theorem error_messages_witness:
  "file' example_state = Some example_file \<and> addressColumns example_state \<noteq> []
   \<and> geocoderReady example_state
   \<and> example_reader example_file (inputEncoding example_state) = ParseComplete example_rows
   \<and> length (geocodedRows (snd (handleProcess example_reader example_gateway example_state))) = 3
   \<and> buildAddress (addressColumns example_state) (example_rows ! 1) = []
   \<and> map_of (geocodedRows (snd (handleProcess example_reader example_gateway example_state)) ! 1)
        key_error_message = Some (VString msg_address_empty)
   \<and> buildAddress (addressColumns example_state) (example_rows ! 2) = ascii ''Nowhere''
   \<and> example_gateway 2 (ascii ''Nowhere'') = ErrorCallback
   \<and> map_of (geocodedRows (snd (handleProcess example_reader example_gateway example_state)) ! 2)
        key_error_message = Some (VString msg_no_result)
   \<and> geocodedRows (snd (handleProcess example_reader example_gateway example_state)) ! 2
        = failure_row (example_rows ! 2)
   \<and> None \<notin> set (outcomes example_gateway (addressColumns example_state) example_rows)
   \<and> length (data (fst (handleProcess example_reader example_gateway example_state))) = 3"
proof -
  let ?pushed = "geocodedRows (snd (handleProcess example_reader example_gateway example_state))"
  have len: "length ?pushed = 3"
    by (simp add: example_run(2))
  have l: "1 < length ?pushed" "2 < length ?pushed"
    by (simp_all add: len)
  have a: "buildAddress (addressColumns example_state) (example_rows ! 1) = []"
    "buildAddress (addressColumns example_state) (example_rows ! 2) = ascii ''Nowhere''"
    "example_gateway 2 (ascii ''Nowhere'') = ErrorCallback"
    by (simp_all add: example_defs buildAddress_def get_property_def truthy_def String_def
        trim_def isWhiteSpace_def ascii_def)
  have n: "None \<notin> set (outcomes example_gateway (addressColumns example_state) example_rows)"
    by (simp add: example_started(4) example_outcomes)
  have r: "length example_rows = 3"
    by (simp add: example_rows_def)
  have ne: "ascii ''Nowhere'' \<noteq> []"
    by (simp add: ascii_def)
  note t = error_messages [where s = example_state and f = example_file
      and read_file = example_reader and rws = example_rows and gw = example_gateway,
      OF example_started(1,2,3,5)]
  from t l(1) have
    "buildAddress (addressColumns example_state) (example_rows ! 1) = [] \<longrightarrow>
       map_of (?pushed ! 1) key_error_message = Some (VString msg_address_empty)"
    unfolding Let_def by blast
  with a(1) have m1: "map_of (?pushed ! 1) key_error_message = Some (VString msg_address_empty)"
    by blast
  from t l(2) have
    "buildAddress (addressColumns example_state) (example_rows ! 2) \<noteq> []
      \<and> (example_gateway 2 (buildAddress (addressColumns example_state) (example_rows ! 2)) = ErrorCallback
         \<or> example_gateway 2 (buildAddress (addressColumns example_state) (example_rows ! 2)) = NotDefined)
     \<longrightarrow> ?pushed ! 2 = failure_row (example_rows ! 2)"
    unfolding Let_def by blast
  with a(2,3) ne have m2: "?pushed ! 2 = failure_row (example_rows ! 2)"
    by simp
  from t n have "length (data (fst (handleProcess example_reader example_gateway example_state)))
      = length example_rows"
    by blast
  then have m3: "length (data (fst (handleProcess example_reader example_gateway example_state))) = 3"
    by (simp only: r)
  have m4: "map_of (failure_row (example_rows ! 2) :: int GeocodedRow) key_error_message
      = Some (VString msg_no_result)"
    by (simp add: map_of_failure_row)
  show ?thesis
    using example_started(1,2,3,5) len a n m1 m3 m4 by (simp only: m2 simp_thms)
qed

section \<open>The progress of a run\<close>



lemma progress_of_3: "map (\<lambda>i. progress_value (Suc i) 3) [0..<3] = [33, 67, 100]"
  by code_simp







end
